theory Spec2Isabelle
  imports Complex_Main
begin

section \<open>Values, results and external calls\<close>

text \<open>
  The arguments of a tool call are a Go \<^verbatim>\<open>map[string]interface{}\<close> decoded from JSON:
  every value is nil, a bool, a float64, a string, a list or an object. A float64 that
  comes out of a JSON document is finite, so it is modelled by the real number it denotes;
  the handlers only compare it with zero and truncate it to an integer.
\<close>

datatype "value" =
    VNull
  | VBool bool
  | VNumber real
  | VString string
  | VArray "value list"
  | VObject "(string \<times> value) list"

type_synonym arguments = "string \<rightharpoonup> value"

text \<open>
  The comma-ok type assertion \<^verbatim>\<open>v, ok := args[k].(string)\<close>: the zero value and
  \<^verbatim>\<open>false\<close> when the key is absent or bound to a value of another dynamic type.
\<close>

definition asString :: "value option \<Rightarrow> string \<times> bool" where
  "asString v = (case v of Some (VString s) \<Rightarrow> (s, True) | _ \<Rightarrow> ('''', False))"

definition asFloat64 :: "value option \<Rightarrow> real \<times> bool" where
  "asFloat64 v = (case v of Some (VNumber x) \<Rightarrow> (x, True) | _ \<Rightarrow> (0, False))"

text \<open>
  The handlers read an optional number with the default \<open>d\<close> by the statements
  \<^verbatim>\<open>x := d; if val, ok := args[k].(float64); ok && val > 0 { x = val }\<close>.
\<close>

definition optionalNumber :: "arguments \<Rightarrow> string \<Rightarrow> real \<Rightarrow> real" where
  "optionalNumber args k d =
    (case asFloat64 (args k) of (val, ok) \<Rightarrow> if ok \<and> val > 0 then val else d)"

text \<open>
  \<^verbatim>\<open>mcp.CallToolResult\<close>: a list of text blocks and the error flag.
  \<^verbatim>\<open>mcp.NewToolResultText\<close> and \<^verbatim>\<open>mcp.NewToolResultError\<close> build a result with one
  text block.
\<close>

record CallToolResult =
  Content :: "string list"
  IsError :: bool

definition NewToolResultText :: "string \<Rightarrow> CallToolResult" where
  "NewToolResultText text = \<lparr>Content = [text], IsError = False\<rparr>"

definition NewToolResultError :: "string \<Rightarrow> CallToolResult" where
  "NewToolResultError text = \<lparr>Content = [text], IsError = True\<rparr>"

text \<open>
  A handler has the Go type
  \<^verbatim>\<open>func(ctx, request) (*mcp.CallToolResult, error)\<close>. It either returns a result
  together with a Go error (\<open>None\<close> is \<^verbatim>\<open>nil\<close>), or it panics.
\<close>

datatype outcome =
    Returned CallToolResult "string option"
  | Panicked string

text \<open>Times are an instant (nanoseconds since the Unix epoch) shown in a zone offset.\<close>

record gotime =
  unixNano :: int
  zoneOffset :: int

definition timeAdd :: "gotime \<Rightarrow> int \<Rightarrow> gotime" where
  "timeAdd t d = t\<lparr>unixNano := unixNano t + d\<rparr>"

text \<open>The requests the handlers hand to their collaborators.\<close>

record httpRequest =
  Method :: string
  URL :: string
  Body :: "string option"
  ContentType :: "string option"

datatype QueryTimeRange_Period =
    PERIOD_UNSPECIFIED
  | PERIOD_1_HOUR
  | PERIOD_6_HOURS
  | PERIOD_1_DAY
  | PERIOD_1_WEEK
  | PERIOD_30_DAYS

datatype TimedCountAlignment =
    ERROR_COUNT_ALIGNMENT_UNSPECIFIED
  | ALIGNMENT_EQUAL_ROUNDED
  | ALIGNMENT_EQUAL_AT_END

record ListGroupStatsRequest =
  lgs_ProjectName :: string
  lgs_TimeRange :: QueryTimeRange_Period
  lgs_PageSize :: int
  lgs_Alignment :: TimedCountAlignment

record ListEventsRequest =
  le_ProjectName :: string
  le_GroupId :: string
  le_PageSize :: int

datatype ClientOption =
    WithCredentialsFile string
  | WithHTTPClient

text \<open>
  Every call a handler makes to a collaborator outside the process is recorded, in order:
  the credential lookup, an HTTP round trip, the creation of the Error Reporting client
  and the two Error Reporting queries.
\<close>

datatype extcall =
    FindDefaultCredentials "string list"
  | HttpDo httpRequest
  | NewErrorStatsClient "ClientOption list"
  | ListGroupStats ListGroupStatsRequest
  | ListEvents ListEventsRequest

section \<open>Authentication (pkg/auth/oauth.go)\<close>

definition ReadOnlyScopes :: "string list" where
  "ReadOnlyScopes =
    [''https://www.googleapis.com/auth/cloud-platform.read-only'',
     ''https://www.googleapis.com/auth/logging.read'',
     ''https://www.googleapis.com/auth/monitoring.read'',
     ''https://www.googleapis.com/auth/compute.readonly'',
     ''https://www.googleapis.com/auth/container.readonly'']"

definition ReadWriteScopes :: "string list" where
  "ReadWriteScopes =
    [''https://www.googleapis.com/auth/cloud-platform'',
     ''https://www.googleapis.com/auth/logging.admin'',
     ''https://www.googleapis.com/auth/monitoring'',
     ''https://www.googleapis.com/auth/compute'',
     ''https://www.googleapis.com/auth/container'']"

record OAuthHandler =
  clientID :: string
  clientSecret :: string
  currentScopes :: "string list"
  credentialsFile :: string

text \<open>\<open>getenv\<close> is \<^verbatim>\<open>os.Getenv\<close>: the empty string for an unset variable.\<close>

definition NewOAuthHandler :: "(string \<Rightarrow> string) \<Rightarrow> string + OAuthHandler" where
  "NewOAuthHandler getenv =
    (let cid = getenv ''GOOGLE_CLIENT_ID'';
         csecret = getenv ''GOOGLE_CLIENT_SECRET'';
         cfile = getenv ''GOOGLE_APPLICATION_CREDENTIALS''
     in if (cid = [] \<or> csecret = []) \<and> cfile = []
        then Inl ''either GOOGLE_CLIENT_ID and GOOGLE_CLIENT_SECRET or GOOGLE_APPLICATION_CREDENTIALS environment variables must be set''
        else Inr \<lparr>clientID = cid, clientSecret = csecret,
                  currentScopes = ReadOnlyScopes, credentialsFile = cfile\<rparr>)"

text \<open>
  \<^verbatim>\<open>GetClient\<close>. \<open>creds\<close> is what \<^verbatim>\<open>google.FindDefaultCredentials\<close> answers
  (\<open>Some e\<close> is the error \<open>e\<close>); building the OAuth client from the client id and
  secret cannot fail. The result is the calls made and the error, if any.
\<close>

definition GetClient :: "string option \<Rightarrow> OAuthHandler \<Rightarrow> extcall list \<times> string option" where
  "GetClient creds h =
    (if credentialsFile h \<noteq> []
     then (case creds of
             Some err \<Rightarrow> ([FindDefaultCredentials (currentScopes h)],
                          Some (''error finding default credentials: '' @ err))
           | None \<Rightarrow> ([FindDefaultCredentials (currentScopes h)], None))
     else ([], None))"

definition UpgradePermissions :: "OAuthHandler \<Rightarrow> OAuthHandler \<times> string option" where
  "UpgradePermissions h =
    (if length (currentScopes h) = length ReadWriteScopes then (h, None)
     else (h\<lparr>currentScopes := ReadWriteScopes\<rparr>, None))"

definition GetClientOptions ::
  "string option \<Rightarrow> OAuthHandler \<Rightarrow> extcall list \<times> (string + ClientOption list)" where
  "GetClientOptions creds h =
    (if credentialsFile h \<noteq> [] then ([], Inr [WithCredentialsFile (credentialsFile h)])
     else (case GetClient creds h of
             (cs, Some err) \<Rightarrow> (cs, Inl (''error getting OAuth client: '' @ err))
           | (cs, None) \<Rightarrow> (cs, Inr [WithHTTPClient])))"

text \<open>
  The methods of an \<^verbatim>\<open>*OAuthHandler\<close>, and the handler's state after a call of one
  of them. Only \<^verbatim>\<open>UpgradePermissions\<close> assigns to a field.
\<close>

datatype authCall = CallGetClient | CallUpgradePermissions | CallGetClientOptions

fun authStep :: "string option \<Rightarrow> OAuthHandler \<Rightarrow> authCall \<Rightarrow> OAuthHandler" where
  "authStep creds h CallGetClient = h"
| "authStep creds h CallUpgradePermissions = fst (UpgradePermissions h)"
| "authStep creds h CallGetClientOptions = h"

section \<open>Tool definitions and registration\<close>

datatype paramKind = KString | KNumber | KBoolean

record paramSpec =
  pname :: string
  kind :: paramKind
  required :: bool
  pdescription :: string

record toolDef =
  tname :: string
  tdescription :: string
  params :: "paramSpec list"

text \<open>
  \<^verbatim>\<open>mcp.WithString(name, mcp.Required(), mcp.Description(d))\<close> and
  \<^verbatim>\<open>mcp.WithNumber(name, mcp.Description(d))\<close>; a property is optional unless
  \<^verbatim>\<open>mcp.Required()\<close> is given.
\<close>

definition WithString :: "string \<Rightarrow> bool \<Rightarrow> string \<Rightarrow> paramSpec" where
  "WithString n req d = \<lparr>pname = n, kind = KString, required = req, pdescription = d\<rparr>"

definition WithNumber :: "string \<Rightarrow> bool \<Rightarrow> string \<Rightarrow> paramSpec" where
  "WithNumber n req d = \<lparr>pname = n, kind = KNumber, required = req, pdescription = d\<rparr>"

definition NewTool :: "string \<Rightarrow> string \<Rightarrow> paramSpec list \<Rightarrow> toolDef" where
  "NewTool n d ps = \<lparr>tname = n, tdescription = d, params = ps\<rparr>"

text \<open>The twelve handlers; a value of this type stands for the closure that is registered.\<close>

datatype tool =
    ListActiveIssues
  | GetIssueDetails
  | QueryLogs
  | GetPodLogs
  | ListClusters
  | GetClusterInfo
  | ListNodePools
  | QueryMetrics
  | ListAlerts
  | SearchGCPDocs
  | SearchK8sDocs
  | GetErrorDocs

definition listActiveIssuesTool :: toolDef where
  "listActiveIssuesTool = NewTool ''list_active_issues''
     ''Lists active issues from GCP Error Reporting''
     [WithString ''project_id'' True ''The Google Cloud project ID'',
      WithNumber ''time_range_hours'' False ''Time range for issues in hours (default: 24)'',
      WithNumber ''max_results'' False ''Maximum number of results to return (default: 10)'']"

definition getIssueDetailsTool :: toolDef where
  "getIssueDetailsTool = NewTool ''get_issue_details''
     ''Gets detailed information about a specific error group''
     [WithString ''project_id'' True ''The Google Cloud project ID'',
      WithString ''error_group_id'' True ''The ID of the error group'']"

definition queryLogsTool :: toolDef where
  "queryLogsTool = NewTool ''query_logs''
     ''Queries logs from GCP Cloud Logging''
     [WithString ''project_id'' True ''The Google Cloud project ID'',
      WithString ''filter'' True ''The filter expression for the logs query'',
      WithNumber ''time_range_hours'' False ''Time range for logs in hours (default: 1)'',
      WithNumber ''max_results'' False ''Maximum number of results to return (default: 50)'']"

definition getPodLogsTool :: toolDef where
  "getPodLogsTool = NewTool ''get_pod_logs''
     ''Gets logs for a specific Kubernetes pod''
     [WithString ''project_id'' True ''The Google Cloud project ID'',
      WithString ''location'' True ''The GKE cluster location'',
      WithString ''cluster_name'' True ''The GKE cluster name'',
      WithString ''namespace'' True ''The Kubernetes namespace'',
      WithString ''pod_name'' True ''The name of the pod'',
      WithString ''container_name'' False
        ''The name of the container (if not provided, logs from all containers will be returned)'',
      WithNumber ''time_range_hours'' False ''Time range for logs in hours (default: 1)'',
      WithNumber ''max_results'' False ''Maximum number of results to return (default: 100)'']"

definition listClustersTool :: toolDef where
  "listClustersTool = NewTool ''list_clusters''
     ''Lists GKE clusters in a project''
     [WithString ''project_id'' True ''The Google Cloud project ID'',
      WithString ''location'' False
        ''The location to list clusters from (optional, if not provided, all locations will be queried)'']"

definition getClusterInfoTool :: toolDef where
  "getClusterInfoTool = NewTool ''get_cluster_info''
     ''Gets detailed information about a GKE cluster''
     [WithString ''project_id'' True ''The Google Cloud project ID'',
      WithString ''location'' True ''The location of the cluster'',
      WithString ''cluster_name'' True ''The name of the cluster'']"

definition listNodePoolsTool :: toolDef where
  "listNodePoolsTool = NewTool ''list_node_pools''
     ''Lists node pools in a GKE cluster''
     [WithString ''project_id'' True ''The Google Cloud project ID'',
      WithString ''location'' True ''The location of the cluster'',
      WithString ''cluster_name'' True ''The name of the cluster'']"

definition queryMetricsTool :: toolDef where
  "queryMetricsTool = NewTool ''query_metrics''
     ''Queries metrics from GCP Cloud Monitoring''
     [WithString ''project_id'' True ''The Google Cloud project ID'',
      WithString ''metric_type'' True
        ''The metric type to query (e.g., kubernetes.io/container/cpu/utilization)'',
      WithString ''filter'' False ''Additional filter for the metrics query'',
      WithNumber ''time_range_hours'' False ''Time range for metrics in hours (default: 1)'',
      WithNumber ''alignment_period_seconds'' False ''Alignment period in seconds (default: 300)'']"

definition listAlertsTool :: toolDef where
  "listAlertsTool = NewTool ''list_alerts''
     ''Lists active alerts from GCP Cloud Monitoring''
     [WithString ''project_id'' True ''The Google Cloud project ID'',
      WithString ''filter'' False ''Additional filter for the alerts query'']"

definition searchGCPDocsTool :: toolDef where
  "searchGCPDocsTool = NewTool ''search_gcp_docs''
     ''Searches Google Cloud documentation''
     [WithString ''query'' True ''The search query'',
      WithNumber ''max_results'' False ''Maximum number of results to return (default: 5)'']"

definition searchK8sDocsTool :: toolDef where
  "searchK8sDocsTool = NewTool ''search_k8s_docs''
     ''Searches Kubernetes documentation''
     [WithString ''query'' True ''The search query'',
      WithNumber ''max_results'' False ''Maximum number of results to return (default: 5)'']"

definition getErrorDocsTool :: toolDef where
  "getErrorDocsTool = NewTool ''get_error_docs''
     ''Gets documentation for a specific error code or message''
     [WithString ''error_code'' False ''The error code to look up'',
      WithString ''error_message'' False ''The error message to look up'']"

text \<open>The definition each handler is registered under.\<close>

fun toolDefOf :: "tool \<Rightarrow> toolDef" where
  "toolDefOf ListActiveIssues = listActiveIssuesTool"
| "toolDefOf GetIssueDetails = getIssueDetailsTool"
| "toolDefOf QueryLogs = queryLogsTool"
| "toolDefOf GetPodLogs = getPodLogsTool"
| "toolDefOf ListClusters = listClustersTool"
| "toolDefOf GetClusterInfo = getClusterInfoTool"
| "toolDefOf ListNodePools = listNodePoolsTool"
| "toolDefOf QueryMetrics = queryMetricsTool"
| "toolDefOf ListAlerts = listAlertsTool"
| "toolDefOf SearchGCPDocs = searchGCPDocsTool"
| "toolDefOf SearchK8sDocs = searchK8sDocsTool"
| "toolDefOf GetErrorDocs = getErrorDocsTool"

text \<open>
  \<^verbatim>\<open>AddToolSafe\<close> passes the definition and the handler to the server's
  \<^verbatim>\<open>AddTool\<close> and returns nothing. \<^verbatim>\<open>AddTool\<close> belongs to the mcp-go library;
  it is the parameter \<open>addTool\<close>, a function from the server's state to its next state.
\<close>

definition AddToolSafe ::
  "('s \<Rightarrow> toolDef \<Rightarrow> tool \<Rightarrow> 's) \<Rightarrow> 's \<Rightarrow> toolDef \<Rightarrow> tool \<Rightarrow> 's" where
  "AddToolSafe addTool s t handler = addTool s t handler"

definition registerGCPIssuesTools ::
  "('s \<Rightarrow> toolDef \<Rightarrow> tool \<Rightarrow> 's) \<Rightarrow> 's \<Rightarrow> 's \<times> string option" where
  "registerGCPIssuesTools addTool s =
    (let s1 = AddToolSafe addTool s listActiveIssuesTool ListActiveIssues;
         s2 = AddToolSafe addTool s1 getIssueDetailsTool GetIssueDetails
     in (s2, None))"

definition registerLoggingTools ::
  "('s \<Rightarrow> toolDef \<Rightarrow> tool \<Rightarrow> 's) \<Rightarrow> 's \<Rightarrow> 's \<times> string option" where
  "registerLoggingTools addTool s =
    (let s1 = AddToolSafe addTool s queryLogsTool QueryLogs;
         s2 = AddToolSafe addTool s1 getPodLogsTool GetPodLogs
     in (s2, None))"

definition registerKubernetesTools ::
  "('s \<Rightarrow> toolDef \<Rightarrow> tool \<Rightarrow> 's) \<Rightarrow> 's \<Rightarrow> 's \<times> string option" where
  "registerKubernetesTools addTool s =
    (let s1 = AddToolSafe addTool s listClustersTool ListClusters;
         s2 = AddToolSafe addTool s1 getClusterInfoTool GetClusterInfo;
         s3 = AddToolSafe addTool s2 listNodePoolsTool ListNodePools
     in (s3, None))"

definition registerMonitoringTools ::
  "('s \<Rightarrow> toolDef \<Rightarrow> tool \<Rightarrow> 's) \<Rightarrow> 's \<Rightarrow> 's \<times> string option" where
  "registerMonitoringTools addTool s =
    (let s1 = AddToolSafe addTool s queryMetricsTool QueryMetrics;
         s2 = AddToolSafe addTool s1 listAlertsTool ListAlerts
     in (s2, None))"

definition registerDocumentationTools ::
  "('s \<Rightarrow> toolDef \<Rightarrow> tool \<Rightarrow> 's) \<Rightarrow> 's \<Rightarrow> 's \<times> string option" where
  "registerDocumentationTools addTool s =
    (let s1 = AddToolSafe addTool s searchGCPDocsTool SearchGCPDocs;
         s2 = AddToolSafe addTool s1 searchK8sDocsTool SearchK8sDocs;
         s3 = AddToolSafe addTool s2 getErrorDocsTool GetErrorDocs
     in (s3, None))"

text \<open>
  \<^verbatim>\<open>RegisterTools\<close> runs the five groups in order and stops at the first group that
  reports an error, wrapping the error with the group's name.
\<close>

definition RegisterTools ::
  "('s \<Rightarrow> toolDef \<Rightarrow> tool \<Rightarrow> 's) \<Rightarrow> 's \<Rightarrow> 's \<times> string option" where
  "RegisterTools addTool s =
    (case registerGCPIssuesTools addTool s of
       (s1, Some err) \<Rightarrow> (s1, Some (''error registering GCP issues tools: '' @ err))
     | (s1, None) \<Rightarrow>
    (case registerLoggingTools addTool s1 of
       (s2, Some err) \<Rightarrow> (s2, Some (''error registering logging tools: '' @ err))
     | (s2, None) \<Rightarrow>
    (case registerKubernetesTools addTool s2 of
       (s3, Some err) \<Rightarrow> (s3, Some (''error registering Kubernetes tools: '' @ err))
     | (s3, None) \<Rightarrow>
    (case registerMonitoringTools addTool s3 of
       (s4, Some err) \<Rightarrow> (s4, Some (''error registering monitoring tools: '' @ err))
     | (s4, None) \<Rightarrow>
    (case registerDocumentationTools addTool s4 of
       (s5, Some err) \<Rightarrow> (s5, Some (''error registering documentation tools: '' @ err))
     | (s5, None) \<Rightarrow> (s5, None))))))"

text \<open>
  The server's tool table as mcp-go keeps it: a map from the tool's name to its entry,
  where adding a tool stores the entry under its name.
\<close>

type_synonym toolTable = "string \<rightharpoonup> (toolDef \<times> tool)"

definition mcpAddTool :: "toolTable \<Rightarrow> toolDef \<Rightarrow> tool \<Rightarrow> toolTable" where
  "mcpAddTool s t handler = s(tname t \<mapsto> (t, handler))"

section \<open>Library functions and the environment of a call\<close>

text \<open>
  The handlers call functions of the Go standard library whose code is not part of the
  repository. They are parameters of the model:
  \<^item> \<open>httpNewRequestError m u\<close>: the error of \<^verbatim>\<open>http.NewRequestWithContext\<close> for
    method \<open>m\<close> and URL \<open>u\<close>, if any;
  \<^item> \<open>jsonMarshal\<close>, \<open>jsonMarshalIndent\<close>: \<^verbatim>\<open>json.Marshal\<close> and
    \<^verbatim>\<open>json.MarshalIndent(v, "", "  ")\<close>;
  \<^item> \<open>sprintfFloat p x\<close>: \<^verbatim>\<open>fmt.Sprintf("%.pf", x)\<close>; \<open>sprintV\<close>: the verb \<^verbatim>\<open>%v\<close>;
  \<^item> \<open>stringsToLower\<close>: \<^verbatim>\<open>strings.ToLower\<close>;
  \<^item> \<open>timeFormat layout t\<close> and \<open>timeParse layout s\<close>: \<^verbatim>\<open>Time.Format\<close> and
    \<^verbatim>\<open>time.Parse\<close>;
  \<^item> \<open>intSize\<close>: the width of \<^verbatim>\<open>int\<close>; \<open>floatToIntOverflow bits x\<close>: what the
    platform yields when a float64 outside the target type's range is converted to an
    integer of \<open>bits\<close> bits (Go leaves it to the implementation).
\<close>

record golib =
  httpNewRequestError :: "string \<Rightarrow> string \<Rightarrow> string option"
  jsonMarshal :: "value \<Rightarrow> string + string"
  jsonMarshalIndent :: "value \<Rightarrow> string + string"
  sprintfFloat :: "nat \<Rightarrow> real \<Rightarrow> string"
  sprintV :: "value \<Rightarrow> string"
  stringsToLower :: "string \<Rightarrow> string"
  timeFormat :: "string \<Rightarrow> gotime \<Rightarrow> string"
  timeParse :: "string \<Rightarrow> string \<Rightarrow> string + gotime"
  intSize :: nat
  floatToIntOverflow :: "nat \<Rightarrow> real \<Rightarrow> int"

definition RFC3339 :: string where
  "RFC3339 = ''2006-01-02T15:04:05Z07:00''"

definition humanLayout :: string where
  "humanLayout = ''2006-01-02 15:04:05''"

text \<open>Conversion of a float64 to a signed integer type: the fraction is discarded.\<close>

definition truncReal :: "real \<Rightarrow> int" where
  "truncReal x = (if 0 \<le> x then \<lfloor>x\<rfloor> else \<lceil>x\<rceil>)"

definition floatToInt :: "golib \<Rightarrow> nat \<Rightarrow> real \<Rightarrow> int" where
  "floatToInt lib bits x =
    (let n = truncReal x
     in if - (2 ^ (bits - 1)) \<le> n \<and> n < 2 ^ (bits - 1) then n
        else floatToIntOverflow lib bits x)"

definition wrap64 :: "int \<Rightarrow> int" where
  "wrap64 x = (x + 2 ^ 63) mod 2 ^ 64 - 2 ^ 63"

text \<open>
  \<^verbatim>\<open>endTime.Add(-time.Duration(timeRangeHours) * time.Hour)\<close>: the hours are
  truncated to an int64, negated and multiplied by the nanoseconds of an hour, in int64.
\<close>

definition hoursBefore :: "golib \<Rightarrow> gotime \<Rightarrow> real \<Rightarrow> gotime" where
  "hoursBefore lib endTime timeRangeHours =
    timeAdd endTime (wrap64 (wrap64 (- floatToInt lib 64 timeRangeHours) * 3600000000000))"

text \<open>The verbs \<^verbatim>\<open>%d\<close> and \<^verbatim>\<open>%t\<close> of \<^verbatim>\<open>fmt.Sprintf\<close>.\<close>

fun showNat :: "nat \<Rightarrow> string" where
  "showNat n =
    (if n < 10 then [''0123456789'' ! n]
     else showNat (n div 10) @ [''0123456789'' ! (n mod 10)])"

declare showNat.simps [simp del]

definition showInt :: "int \<Rightarrow> string" where
  "showInt i = (if i < 0 then ''-'' @ showNat (nat (- i)) else showNat (nat i))"

definition showBool :: "bool \<Rightarrow> string" where
  "showBool b = (if b then ''true'' else ''false'')"

text \<open>\<^verbatim>\<open>strings.Contains\<close> and \<^verbatim>\<open>strings.Split\<close> with a separator of one byte.\<close>

fun isPrefix :: "string \<Rightarrow> string \<Rightarrow> bool" where
  "isPrefix [] ys = True"
| "isPrefix (x # xs) [] = False"
| "isPrefix (x # xs) (y # ys) = (x = y \<and> isPrefix xs ys)"

fun stringsContains :: "string \<Rightarrow> string \<Rightarrow> bool" where
  "stringsContains [] sub = (sub = [])"
| "stringsContains (c # s) sub = (isPrefix sub (c # s) \<or> stringsContains s sub)"

fun stringsSplit :: "string \<Rightarrow> char \<Rightarrow> string list" where
  "stringsSplit [] sep = [[]]"
| "stringsSplit (c # s) sep =
    (if c = sep then [] # stringsSplit s sep
     else (case stringsSplit s sep of
             [] \<Rightarrow> [[c]]
           | p # ps \<Rightarrow> (c # p) # ps))"

text \<open>
  What differs between two runs of the same call inside the process: the clock, and the
  order in which a \<^verbatim>\<open>range\<close> loop visits a map, which Go leaves unspecified. For a
  map of \<open>n\<close> entries, \<open>mapOrder n\<close> lists the positions \<open>0..<n\<close> in the order of the
  visit; \<open>rangeMap\<close> is the sequence of entries the loop sees.
\<close>

record runtime =
  now :: gotime
  mapOrder :: "nat \<Rightarrow> nat list"

definition rangeMap :: "runtime \<Rightarrow> 'a list \<Rightarrow> 'a list" where
  "rangeMap rt entries =
    map (\<lambda>i. entries ! i) (filter (\<lambda>i. i < length entries) (mapOrder rt (length entries)))"

definition validOrder :: "runtime \<Rightarrow> bool" where
  "validOrder rt \<longleftrightarrow> (\<forall>n. distinct (mapOrder rt n) \<and> set (mapOrder rt n) = {0..<n})"

text \<open>Lookup in a Go map of strings: the empty string for a missing key.\<close>

definition mapIndex :: "(string \<times> string) list \<Rightarrow> string \<Rightarrow> string" where
  "mapIndex m k = (case map_of m k of Some v \<Rightarrow> v | None \<Rightarrow> [])"

text \<open>
  An HTTP round trip either fails in the transport or yields a response: its status
  code, its status line and what decoding its body into the handler's struct gives.
\<close>

datatype 'p httpOutcome =
    TransportError string
  | Response int string "string + 'p"

section \<open>Decoded payloads\<close>

text \<open>
  One record per struct a handler decodes; nested structs are flattened. A Go map of
  strings is the list of its entries, each key once.
\<close>

record cluster =
  c_Name :: string
  c_Description :: string
  c_Location :: string
  c_Status :: string
  c_NodeCount :: int
  c_MasterVersion :: string
  c_NodeVersion :: string
  c_Network :: string
  c_Subnetwork :: string
  c_ClusterIpv4Cidr :: string
  c_ServicesIpv4Cidr :: string
  c_Endpoint :: string
  c_CreateTime :: string

record clusterInfo = cluster +
  ci_MaintenanceStartTime :: string
  ci_MaintenanceDuration :: string
  ci_NetworkConfigNetwork :: string
  ci_NetworkConfigSubnetwork :: string
  ci_HttpLoadBalancingDisabled :: bool
  ci_HorizontalPodAutoscalingDisabled :: bool
  ci_KubernetesDashboardDisabled :: bool
  ci_NetworkPolicyConfigDisabled :: bool
  ci_Locations :: "string list"
  ci_ResourceLabels :: "(string \<times> string) list"

record nodePool =
  np_Name :: string
  np_Status :: string
  np_MachineType :: string
  np_DiskSizeGb :: int
  np_OauthScopes :: "string list"
  np_ServiceAccount :: string
  np_Preemptible :: bool
  np_Labels :: "(string \<times> string) list"
  np_InitialNodeCount :: int
  np_Locations :: "string list"
  np_InstanceGroupUrls :: "string list"
  np_Version :: string
  np_AutoscalingEnabled :: bool
  np_MinNodeCount :: int
  np_MaxNodeCount :: int
  np_AutoUpgrade :: bool
  np_AutoRepair :: bool

record labelValue =
  lv_StringValue :: string
  lv_BoolValue :: bool
  lv_Int64Value :: string

record pointValue =
  pv_DoubleValue :: real
  pv_Int64Value :: string
  pv_BoolValue :: bool
  pv_StringValue :: string

record pointData =
  pd_Values :: "pointValue list"
  pd_StartTime :: string
  pd_EndTime :: string

record timeSeries =
  ts_LabelValues :: "labelValue list"
  ts_PointData :: "pointData list"

record labelDescriptor =
  ld_Key :: string
  ld_ValueType :: string
  ld_Description :: string

record pointDescriptor =
  ptd_Key :: string
  ptd_ValueType :: string
  ptd_MetricKind :: string
  ptd_Unit :: string
  ptd_Description :: string

record timeSeriesResponse =
  TimeSeriesData :: "timeSeries list"
  LabelDescriptors :: "labelDescriptor list"
  PointDescriptors :: "pointDescriptor list"

record condition =
  cond_Name :: string
  cond_DisplayName :: string
  cond_Severity :: string

record alertPolicy =
  ap_Name :: string
  ap_DisplayName :: string
  ap_DocumentationContent :: string
  ap_Conditions :: "condition list"
  ap_Enabled :: bool

record incident =
  inc_Name :: string
  inc_ResourceName :: string
  inc_PolicyName :: string
  inc_ConditionName :: string
  inc_StartTime :: string
  inc_EndTime :: string
  inc_State :: string
  inc_Summary :: string
  inc_Documentation :: string
  inc_Severity :: string
  inc_ResourceDisplayName :: string

text \<open>
  The Error Reporting messages. A message-typed field is a pointer, \<open>None\<close> when the
  field is unset; a timestamp is given by the time \<^verbatim>\<open>AsTime()\<close> returns.
\<close>

record ServiceContext =
  sc_Service :: string
  sc_Version :: string

record ErrorGroupStats =
  egs_GroupName :: "string option"
  egs_Count :: int
  egs_FirstSeenTime :: "gotime option"
  egs_LastSeenTime :: "gotime option"
  egs_AffectedServices :: "ServiceContext list"

record SourceLocation =
  sl_FilePath :: string
  sl_LineNumber :: int
  sl_FunctionName :: string

record HttpRequestContext =
  hr_Method :: string
  hr_Url :: string
  hr_UserAgent :: string
  hr_Referrer :: string
  hr_RemoteIp :: string

record ErrorContext =
  ec_HttpRequest :: "HttpRequestContext option"
  ec_ReportLocation :: "SourceLocation option"

record ErrorEvent =
  ev_EventTime :: "gotime option"
  ev_ServiceContext :: "ServiceContext option"
  ev_Message :: string
  ev_Context :: "ErrorContext option"

record logEntry =
  e_LogName :: string
  e_ResourceType :: string
  e_ResourceLabels :: "(string \<times> string) list"
  e_Timestamp :: string
  e_Severity :: string
  e_TextPayload :: string
  e_JsonPayload :: "(string \<times> value) list option"
  e_Labels :: "(string \<times> string) list"

record logEntriesResponse =
  Entries :: "logEntry list"
  NextPageToken :: string

record podLogEntry =
  pe_Timestamp :: string
  pe_Severity :: string
  pe_TextPayload :: string
  pe_JsonPayload :: "(string \<times> value) list option"
  pe_ResourceLabels :: "(string \<times> string) list"

record podLogEntriesResponse =
  PodEntries :: "podLogEntry list"
  PodNextPageToken :: string

text \<open>
  What the collaborators answer during one call: the credential lookup, each remote
  endpoint, and the Error Reporting client. An iterator hands out its items and then
  ends with \<^verbatim>\<open>iterator.Done\<close> (\<open>None\<close>) or with an error.
\<close>

record world =
  credentialsError :: "string option"
  clustersAPI :: "cluster list httpOutcome"
  clusterAPI :: "clusterInfo httpOutcome"
  nodePoolsAPI :: "nodePool list httpOutcome"
  timeSeriesAPI :: "timeSeriesResponse httpOutcome"
  alertPoliciesAPI :: "alertPolicy list httpOutcome"
  incidentsAPI :: "incident list httpOutcome"
  logEntriesAPI :: "logEntriesResponse httpOutcome"
  podLogEntriesAPI :: "podLogEntriesResponse httpOutcome"
  errorStatsClientError :: "string option"
  groupStats :: "ErrorGroupStats list \<times> string option"
  events :: "ErrorEvent list \<times> string option"

abbreviation toolError :: "string \<Rightarrow> outcome" where
  "toolError msg \<equiv> Returned (NewToolResultError msg) None"

abbreviation toolText :: "string \<Rightarrow> outcome" where
  "toolText text \<equiv> Returned (NewToolResultText text) None"

section \<open>Kubernetes tools\<close>

definition gcpContainerBaseURL :: string where
  "gcpContainerBaseURL = ''https://container.googleapis.com/v1''"

definition boolToEnabledString :: "bool \<Rightarrow> string" where
  "boolToEnabledString b = (if b then ''Enabled'' else ''Disabled'')"

text \<open>The body of the loop over the clusters, for the cluster at index \<open>i\<close>.\<close>

definition renderCluster :: "nat \<Rightarrow> cluster \<Rightarrow> string" where
  "renderCluster i c =
    ''### '' @ showInt (int i + 1) @ ''. Cluster: '' @ c_Name c @ ''\<newline>'' @
    ''- **Location**: '' @ c_Location c @ ''\<newline>'' @
    ''- **Status**: '' @ c_Status c @ ''\<newline>'' @
    ''- **Node Count**: '' @ showInt (c_NodeCount c) @ ''\<newline>'' @
    ''- **Kubernetes Version**: '' @ c_MasterVersion c @ '' (master) / '' @ c_NodeVersion c @
      '' (nodes)\<newline>'' @
    ''- **Endpoint**: '' @ c_Endpoint c @ ''\<newline>'' @
    ''- **Network**: '' @ c_Network c @ ''\<newline>'' @
    ''- **Subnetwork**: '' @ c_Subnetwork c @ ''\<newline>'' @
    ''- **Pod CIDR**: '' @ c_ClusterIpv4Cidr c @ ''\<newline>'' @
    ''- **Service CIDR**: '' @ c_ServicesIpv4Cidr c @ ''\<newline>'' @
    ''- **Created**: '' @ c_CreateTime c @ ''\<newline>'' @
    (if c_Description c \<noteq> [] then ''- **Description**: '' @ c_Description c @ ''\<newline>''
     else []) @
    ''\<newline>''"

definition renderClusters :: "string \<Rightarrow> string \<Rightarrow> cluster list \<Rightarrow> string" where
  "renderClusters projectID location clusters =
    (if length clusters = 0
     then ''No GKE clusters found in project '' @ projectID @
          (if location \<noteq> [] then '' in location '' @ location else []) @ ''.''
     else ''Found '' @ showInt (int (length clusters)) @ '' GKE clusters in project '' @ projectID @
          (if location \<noteq> [] then '' in location '' @ location else []) @
          '':\<newline>\<newline>'' @
          concat (map (\<lambda>(i, c). renderCluster i c) (enumerate 0 clusters)))"

definition listClustersURL :: "string \<Rightarrow> string \<Rightarrow> string" where
  "listClustersURL projectID location =
    (if location = []
     then gcpContainerBaseURL @ ''/projects/'' @ projectID @ ''/locations/-/clusters''
     else gcpContainerBaseURL @ ''/projects/'' @ projectID @ ''/locations/'' @ location @
          ''/clusters'')"

definition handleListClusters ::
  "golib \<Rightarrow> world \<Rightarrow> OAuthHandler \<Rightarrow> arguments \<Rightarrow> extcall list \<times> outcome" where
  "handleListClusters lib w h args =
    (case asString (args ''project_id'') of (projectID, ok) \<Rightarrow>
     if \<not> ok \<or> projectID = [] then ([], toolError ''project_id must be a non-empty string'')
     else
    (case asString (args ''location'') of (location, _) \<Rightarrow>
    (case GetClient (credentialsError w) h of
       (cs, Some err) \<Rightarrow> (cs, toolError (''Error getting authenticated client: '' @ err))
     | (cs, None) \<Rightarrow>
    (let apiURL = listClustersURL projectID location
     in
    (case httpNewRequestError lib ''GET'' apiURL of
       Some err \<Rightarrow> (cs, toolError (''Error creating request: '' @ err))
     | None \<Rightarrow>
    (let req = \<lparr>Method = ''GET'', URL = apiURL, Body = None, ContentType = None\<rparr>;
         cs1 = cs @ [HttpDo req]
     in
    (case clustersAPI w of
       TransportError err \<Rightarrow>
         (cs1, toolError (''Error making request to Container API: '' @ err))
     | Response code status body \<Rightarrow>
         if code \<noteq> 200 then (cs1, toolError (''Error from Container API: '' @ status))
         else
        (case body of
           Inl err \<Rightarrow> (cs1, toolError (''Error parsing response: '' @ err))
         | Inr clusters \<Rightarrow>
             (cs1, toolText (renderClusters projectID location clusters))))))))))"

definition renderClusterInfo :: "runtime \<Rightarrow> clusterInfo \<Rightarrow> string" where
  "renderClusterInfo rt c =
    ''# GKE Cluster: '' @ c_Name c @ ''\<newline>\<newline>'' @
    ''## Basic Information\<newline>\<newline>'' @
    ''- **Location**: '' @ c_Location c @ ''\<newline>'' @
    ''- **Status**: '' @ c_Status c @ ''\<newline>'' @
    ''- **Node Count**: '' @ showInt (c_NodeCount c) @ ''\<newline>'' @
    ''- **Kubernetes Version**: '' @ c_MasterVersion c @ '' (master) / '' @ c_NodeVersion c @
      '' (nodes)\<newline>'' @
    ''- **Endpoint**: '' @ c_Endpoint c @ ''\<newline>'' @
    ''- **Created**: '' @ c_CreateTime c @ ''\<newline>'' @
    (if c_Description c \<noteq> [] then ''- **Description**: '' @ c_Description c @ ''\<newline>''
     else []) @
    ''\<newline>## Network Configuration\<newline>\<newline>'' @
    ''- **Network**: '' @ c_Network c @ ''\<newline>'' @
    ''- **Subnetwork**: '' @ c_Subnetwork c @ ''\<newline>'' @
    ''- **Pod CIDR**: '' @ c_ClusterIpv4Cidr c @ ''\<newline>'' @
    ''- **Service CIDR**: '' @ c_ServicesIpv4Cidr c @ ''\<newline>'' @
    ''\<newline>## Add-ons Configuration\<newline>\<newline>'' @
    ''- **HTTP Load Balancing**: '' @
      boolToEnabledString (\<not> ci_HttpLoadBalancingDisabled c) @ ''\<newline>'' @
    ''- **Horizontal Pod Autoscaling**: '' @
      boolToEnabledString (\<not> ci_HorizontalPodAutoscalingDisabled c) @ ''\<newline>'' @
    ''- **Kubernetes Dashboard**: '' @
      boolToEnabledString (\<not> ci_KubernetesDashboardDisabled c) @ ''\<newline>'' @
    ''- **Network Policy**: '' @
      boolToEnabledString (\<not> ci_NetworkPolicyConfigDisabled c) @ ''\<newline>'' @
    (if length (ci_Locations c) > 0
     then ''\<newline>## Node Locations\<newline>\<newline>'' @
          concat (map (\<lambda>loc. ''- '' @ loc @ ''\<newline>'') (ci_Locations c))
     else []) @
    (if length (ci_ResourceLabels c) > 0
     then ''\<newline>## Resource Labels\<newline>\<newline>'' @
          concat (map (\<lambda>(k, v). ''- **'' @ k @ ''**: '' @ v @ ''\<newline>'')
                      (rangeMap rt (ci_ResourceLabels c)))
     else []) @
    (if ci_MaintenanceStartTime c \<noteq> []
     then ''\<newline>## Maintenance Window\<newline>\<newline>'' @
          ''- **Start Time**: '' @ ci_MaintenanceStartTime c @ ''\<newline>'' @
          ''- **Duration**: '' @ ci_MaintenanceDuration c @ ''\<newline>''
     else [])"

definition handleGetClusterInfo ::
  "golib \<Rightarrow> runtime \<Rightarrow> world \<Rightarrow> OAuthHandler \<Rightarrow> arguments \<Rightarrow> extcall list \<times> outcome" where
  "handleGetClusterInfo lib rt w h args =
    (case asString (args ''project_id'') of (projectID, ok) \<Rightarrow>
     if \<not> ok \<or> projectID = [] then ([], toolError ''project_id must be a non-empty string'')
     else
    (case asString (args ''location'') of (location, ok) \<Rightarrow>
     if \<not> ok \<or> location = [] then ([], toolError ''location must be a non-empty string'')
     else
    (case asString (args ''cluster_name'') of (clusterName, ok) \<Rightarrow>
     if \<not> ok \<or> clusterName = []
     then ([], toolError ''cluster_name must be a non-empty string'')
     else
    (case GetClient (credentialsError w) h of
       (cs, Some err) \<Rightarrow> (cs, toolError (''Error getting authenticated client: '' @ err))
     | (cs, None) \<Rightarrow>
    (let apiURL = gcpContainerBaseURL @ ''/projects/'' @ projectID @ ''/locations/'' @ location @
                  ''/clusters/'' @ clusterName
     in
    (case httpNewRequestError lib ''GET'' apiURL of
       Some err \<Rightarrow> (cs, toolError (''Error creating request: '' @ err))
     | None \<Rightarrow>
    (let req = \<lparr>Method = ''GET'', URL = apiURL, Body = None, ContentType = None\<rparr>;
         cs1 = cs @ [HttpDo req]
     in
    (case clusterAPI w of
       TransportError err \<Rightarrow>
         (cs1, toolError (''Error making request to Container API: '' @ err))
     | Response code status body \<Rightarrow>
         if code \<noteq> 200 then (cs1, toolError (''Error from Container API: '' @ status))
         else
        (case body of
           Inl err \<Rightarrow> (cs1, toolError (''Error parsing response: '' @ err))
         | Inr c \<Rightarrow> (cs1, toolText (renderClusterInfo rt c)))))))))))"

text \<open>The body of the loop over the node pools, for the pool at index \<open>i\<close>.\<close>

definition renderNodePool :: "runtime \<Rightarrow> nat \<Rightarrow> nodePool \<Rightarrow> string" where
  "renderNodePool rt i pool =
    ''## '' @ showInt (int i + 1) @ ''. Node Pool: '' @ np_Name pool @ ''\<newline>\<newline>'' @
    ''- **Status**: '' @ np_Status pool @ ''\<newline>'' @
    ''- **Version**: '' @ np_Version pool @ ''\<newline>'' @
    ''- **Initial Node Count**: '' @ showInt (np_InitialNodeCount pool) @ ''\<newline>'' @
    ''\<newline>### Machine Configuration\<newline>\<newline>'' @
    ''- **Machine Type**: '' @ np_MachineType pool @ ''\<newline>'' @
    ''- **Disk Size**: '' @ showInt (np_DiskSizeGb pool) @ '' GB\<newline>'' @
    ''- **Preemptible**: '' @ showBool (np_Preemptible pool) @ ''\<newline>'' @
    ''- **Service Account**: '' @ np_ServiceAccount pool @ ''\<newline>'' @
    (if length (np_OauthScopes pool) > 0
     then ''- **OAuth Scopes**:\<newline>'' @
          concat (map (\<lambda>scope. ''  - '' @ scope @ ''\<newline>'') (np_OauthScopes pool))
     else []) @
    (if length (np_Labels pool) > 0
     then ''- **Labels**:\<newline>'' @
          concat (map (\<lambda>(k, v). ''  - '' @ k @ '': '' @ v @ ''\<newline>'')
                      (rangeMap rt (np_Labels pool)))
     else []) @
    ''\<newline>### Autoscaling\<newline>\<newline>'' @
    (if np_AutoscalingEnabled pool
     then ''- **Enabled**: Yes\<newline>'' @
          ''- **Min Nodes**: '' @ showInt (np_MinNodeCount pool) @ ''\<newline>'' @
          ''- **Max Nodes**: '' @ showInt (np_MaxNodeCount pool) @ ''\<newline>''
     else ''- **Enabled**: No\<newline>'') @
    ''\<newline>### Management\<newline>\<newline>'' @
    ''- **Auto Upgrade**: '' @ showBool (np_AutoUpgrade pool) @ ''\<newline>'' @
    ''- **Auto Repair**: '' @ showBool (np_AutoRepair pool) @ ''\<newline>'' @
    (if length (np_Locations pool) > 0
     then ''\<newline>### Locations\<newline>\<newline>'' @
          concat (map (\<lambda>loc. ''- '' @ loc @ ''\<newline>'') (np_Locations pool))
     else []) @
    ''\<newline>''"

definition renderNodePools :: "runtime \<Rightarrow> string \<Rightarrow> string \<Rightarrow> nodePool list \<Rightarrow> string" where
  "renderNodePools rt clusterName location nodePools =
    (if length nodePools = 0
     then ''No node pools found in cluster '' @ clusterName @ '' in location '' @ location @ ''.''
     else ''# Node Pools in Cluster '' @ clusterName @ ''\<newline>\<newline>'' @
          concat (map (\<lambda>(i, pool). renderNodePool rt i pool) (enumerate 0 nodePools)))"

definition handleListNodePools ::
  "golib \<Rightarrow> runtime \<Rightarrow> world \<Rightarrow> OAuthHandler \<Rightarrow> arguments \<Rightarrow> extcall list \<times> outcome" where
  "handleListNodePools lib rt w h args =
    (case asString (args ''project_id'') of (projectID, ok) \<Rightarrow>
     if \<not> ok \<or> projectID = [] then ([], toolError ''project_id must be a non-empty string'')
     else
    (case asString (args ''location'') of (location, ok) \<Rightarrow>
     if \<not> ok \<or> location = [] then ([], toolError ''location must be a non-empty string'')
     else
    (case asString (args ''cluster_name'') of (clusterName, ok) \<Rightarrow>
     if \<not> ok \<or> clusterName = []
     then ([], toolError ''cluster_name must be a non-empty string'')
     else
    (case GetClient (credentialsError w) h of
       (cs, Some err) \<Rightarrow> (cs, toolError (''Error getting authenticated client: '' @ err))
     | (cs, None) \<Rightarrow>
    (let apiURL = gcpContainerBaseURL @ ''/projects/'' @ projectID @ ''/locations/'' @ location @
                  ''/clusters/'' @ clusterName @ ''/nodePools''
     in
    (case httpNewRequestError lib ''GET'' apiURL of
       Some err \<Rightarrow> (cs, toolError (''Error creating request: '' @ err))
     | None \<Rightarrow>
    (let req = \<lparr>Method = ''GET'', URL = apiURL, Body = None, ContentType = None\<rparr>;
         cs1 = cs @ [HttpDo req]
     in
    (case nodePoolsAPI w of
       TransportError err \<Rightarrow>
         (cs1, toolError (''Error making request to Container API: '' @ err))
     | Response code status body \<Rightarrow>
         if code \<noteq> 200 then (cs1, toolError (''Error from Container API: '' @ status))
         else
        (case body of
           Inl err \<Rightarrow> (cs1, toolError (''Error parsing response: '' @ err))
         | Inr nodePools \<Rightarrow>
             (cs1, toolText (renderNodePools rt clusterName location nodePools)))))))))))"

section \<open>Monitoring tools\<close>

definition gcpMonitoringBaseURL :: string where
  "gcpMonitoringBaseURL = ''https://monitoring.googleapis.com/v3''"

text \<open>\<^verbatim>\<open>formatTime\<close> formats an RFC3339 time string to a more readable format.\<close>

definition formatTime :: "golib \<Rightarrow> string \<Rightarrow> string" where
  "formatTime lib timeStr =
    (case timeParse lib RFC3339 timeStr of
       Inl err \<Rightarrow> timeStr
     | Inr t \<Rightarrow> timeFormat lib humanLayout t)"

text \<open>The label line of the loop over a series' label values, at index \<open>j\<close>.\<close>

definition renderLabelValue :: "string list \<Rightarrow> nat \<Rightarrow> labelValue \<Rightarrow> string" where
  "renderLabelValue labelKeys j lv =
    (if j < length labelKeys
     then (let v = (if lv_StringValue lv \<noteq> [] then lv_StringValue lv
                    else if lv_Int64Value lv \<noteq> [] then lv_Int64Value lv
                    else showBool (lv_BoolValue lv))
           in ''- **'' @ labelKeys ! j @ ''**: '' @ v @ ''\<newline>'')
     else [])"

text \<open>The table row of the loop over a series' points.\<close>

definition renderPoint :: "golib \<Rightarrow> pointData \<Rightarrow> string" where
  "renderPoint lib pd =
    (let timeStr = (case timeParse lib RFC3339 (pd_EndTime pd) of
                      Inl err \<Rightarrow> pd_EndTime pd
                    | Inr endTime \<Rightarrow> timeFormat lib humanLayout endTime);
         valueStr =
           (case pd_Values pd of
              v0 # _ \<Rightarrow>
                (if pv_DoubleValue v0 \<noteq> 0 then sprintfFloat lib 6 (pv_DoubleValue v0)
                 else if pv_Int64Value v0 \<noteq> [] then pv_Int64Value v0
                 else if pv_StringValue v0 \<noteq> [] then pv_StringValue v0
                 else showBool (pv_BoolValue v0))
            | [] \<Rightarrow> ''N/A'')
     in ''| '' @ timeStr @ '' | '' @ valueStr @ '' |\<newline>'')"

definition renderTimeSeries :: "golib \<Rightarrow> string list \<Rightarrow> nat \<Rightarrow> timeSeries \<Rightarrow> string" where
  "renderTimeSeries lib labelKeys i ts =
    ''## Time Series '' @ showInt (int i + 1) @ ''\<newline>\<newline>'' @
    ''### Labels\<newline>\<newline>'' @
    concat (map (\<lambda>(j, lv). renderLabelValue labelKeys j lv) (enumerate 0 (ts_LabelValues ts))) @
    ''\<newline>### Data Points\<newline>\<newline>'' @
    (if length (ts_PointData ts) = 0 then ''No data points available.\<newline>''
     else ''| Time | Value |\<newline>'' @
          ''| ---- | ----- |\<newline>'' @
          concat (map (renderPoint lib) (ts_PointData ts))) @
    ''\<newline>''"

definition renderMetrics :: "golib \<Rightarrow> string \<Rightarrow> timeSeriesResponse \<Rightarrow> string" where
  "renderMetrics lib metricType response =
    (if length (TimeSeriesData response) = 0
     then ''No metrics data found for metric type '' @ metricType @
          '' in the specified time range.''
     else ''# Metrics Data for '' @ metricType @ ''\<newline>\<newline>'' @
          (let labelKeys = map ld_Key (LabelDescriptors response)
           in concat (map (\<lambda>(i, ts). renderTimeSeries lib labelKeys i ts)
                          (enumerate 0 (TimeSeriesData response)))))"

text \<open>The request body of the metrics query, built from the clock and the parameters.\<close>

definition metricsRequestBody ::
  "golib \<Rightarrow> runtime \<Rightarrow> string \<Rightarrow> string \<Rightarrow> real \<Rightarrow> real \<Rightarrow> value" where
  "metricsRequestBody lib rt metricType filterStr timeRangeHours alignmentPeriodSeconds =
    (let endTime = now rt;
         startTime = hoursBefore lib endTime timeRangeHours
     in VObject
           ([(''metricDescriptor'', VObject [(''type'', VString metricType)]),
             (''aggregation'', VObject
                [(''alignmentPeriod'', VString (sprintfFloat lib 0 alignmentPeriodSeconds @ ''s'')),
                 (''perSeriesAligner'', VString ''ALIGN_MEAN''),
                 (''crossSeriesReducer'', VString ''REDUCE_MEAN'')]),
             (''interval'', VObject
                [(''startTime'', VString (timeFormat lib RFC3339 startTime)),
                 (''endTime'', VString (timeFormat lib RFC3339 endTime))])] @
            (if filterStr \<noteq> [] then [(''filter'', VString filterStr)] else [])))"

definition handleQueryMetrics ::
  "golib \<Rightarrow> runtime \<Rightarrow> world \<Rightarrow> OAuthHandler \<Rightarrow> arguments \<Rightarrow> extcall list \<times> outcome" where
  "handleQueryMetrics lib rt w h args =
    (case asString (args ''project_id'') of (projectID, ok) \<Rightarrow>
     if \<not> ok \<or> projectID = [] then ([], toolError ''project_id must be a non-empty string'')
     else
    (case asString (args ''metric_type'') of (metricType, ok) \<Rightarrow>
     if \<not> ok \<or> metricType = [] then ([], toolError ''metric_type must be a non-empty string'')
     else
    (case asString (args ''filter'') of (filterStr, _) \<Rightarrow>
    (let timeRangeHours = optionalNumber args ''time_range_hours'' 1;
         alignmentPeriodSeconds = optionalNumber args ''alignment_period_seconds'' 300
     in
    (case GetClient (credentialsError w) h of
       (cs, Some err) \<Rightarrow> (cs, toolError (''Error getting authenticated client: '' @ err))
     | (cs, None) \<Rightarrow>
    (let requestBody = metricsRequestBody lib rt metricType filterStr timeRangeHours
                         alignmentPeriodSeconds
     in
    (case jsonMarshal lib requestBody of
       Inl err \<Rightarrow> (cs, toolError (''Error marshaling request body: '' @ err))
     | Inr requestBodyJSON \<Rightarrow>
    (let apiURL = gcpMonitoringBaseURL @ ''/projects/'' @ projectID @ ''/timeSeries:query''
     in
    (case httpNewRequestError lib ''POST'' apiURL of
       Some err \<Rightarrow> (cs, toolError (''Error creating request: '' @ err))
     | None \<Rightarrow>
    (let req = \<lparr>Method = ''POST'', URL = apiURL, Body = Some requestBodyJSON,
                ContentType = Some ''application/json''\<rparr>;
         cs1 = cs @ [HttpDo req]
     in
    (case timeSeriesAPI w of
       TransportError err \<Rightarrow>
         (cs1, toolError (''Error making request to Monitoring API: '' @ err))
     | Response code status body \<Rightarrow>
         if code \<noteq> 200 then (cs1, toolError (''Error from Monitoring API: '' @ status))
         else
        (case body of
           Inl err \<Rightarrow> (cs1, toolError (''Error parsing response: '' @ err))
         | Inr response \<Rightarrow>
             (cs1, toolText (renderMetrics lib metricType response))))))))))))))"

text \<open>
  The lookup table \<^verbatim>\<open>policyMap\<close>: policy name to display name, documentation and the
  display names of its conditions by condition name. A later policy or condition of the
  same name replaces the earlier one.
\<close>

definition policyMapOf ::
  "alertPolicy list \<Rightarrow> (string \<rightharpoonup> string \<times> string \<times> (string \<rightharpoonup> string))" where
  "policyMapOf policies =
    foldl (\<lambda>m policy.
             m(ap_Name policy \<mapsto>
                 (ap_DisplayName policy, ap_DocumentationContent policy,
                  foldl (\<lambda>cm c. cm(cond_Name c \<mapsto> cond_DisplayName c)) Map.empty
                        (ap_Conditions policy))))
          Map.empty policies"

text \<open>The body of the loop over the incidents, for the incident at index \<open>i\<close>.\<close>

definition renderIncident ::
  "golib \<Rightarrow> (string \<rightharpoonup> string \<times> string \<times> (string \<rightharpoonup> string)) \<Rightarrow> nat \<Rightarrow> incident \<Rightarrow> string" where
  "renderIncident lib policyMap i inc =
    (if inc_State inc \<noteq> ''OPEN'' then []
     else
       (let policyDisplayName =
              (case policyMap (inc_PolicyName inc) of
                 Some (displayName, doc, conds) \<Rightarrow> displayName
               | None \<Rightarrow> ''Unknown Policy'');
            conditionDisplayName =
              (case policyMap (inc_PolicyName inc) of
                 Some (displayName, doc, conds) \<Rightarrow>
                   (case conds (inc_ConditionName inc) of
                      Some condName \<Rightarrow> condName
                    | None \<Rightarrow> ''Unknown Condition'')
               | None \<Rightarrow> ''Unknown Condition'');
            documentation =
              (case policyMap (inc_PolicyName inc) of
                 Some (displayName, doc, conds) \<Rightarrow> doc
               | None \<Rightarrow> [])
        in ''## '' @ showInt (int i + 1) @ ''. Alert: '' @ inc_ResourceDisplayName inc @
             ''\<newline>\<newline>'' @
           ''- **Policy**: '' @ policyDisplayName @ ''\<newline>'' @
           ''- **Condition**: '' @ conditionDisplayName @ ''\<newline>'' @
           ''- **Severity**: '' @ inc_Severity inc @ ''\<newline>'' @
           ''- **Started**: '' @ formatTime lib (inc_StartTime inc) @ ''\<newline>'' @
           (if inc_Summary inc \<noteq> [] then ''- **Summary**: '' @ inc_Summary inc @ ''\<newline>''
            else []) @
           (if documentation \<noteq> []
            then ''\<newline>### Documentation\<newline>\<newline>'' @ documentation @ ''\<newline>''
            else []) @
           ''\<newline>''))"

definition renderAlerts :: "golib \<Rightarrow> string \<Rightarrow> alertPolicy list \<Rightarrow> incident list \<Rightarrow> string" where
  "renderAlerts lib projectID policies incidents =
    (let policyMap = policyMapOf policies;
         activeIncidents = length (filter (\<lambda>inc. inc_State inc = ''OPEN'') incidents)
     in if activeIncidents = 0 then ''No active alerts found.''
        else ''# Active Alerts in Project '' @ projectID @ ''\<newline>\<newline>'' @
             ''Found '' @ showInt (int activeIncidents) @ '' active alerts:\<newline>\<newline>'' @
             concat (map (\<lambda>(i, inc). renderIncident lib policyMap i inc) (enumerate 0 incidents)) @
             ''## Recommended Actions\<newline>\<newline>'' @
             ''1. Check the affected resources for any recent changes or deployments\<newline>'' @
             ''2. Review logs around the time the alert was triggered\<newline>'' @
             ''3. Check for related alerts that might indicate a broader issue\<newline>'' @
             ''4. Verify resource utilization and performance metrics\<newline>'' @
             ''5. Consider scaling resources if the alert is related to resource constraints\<newline>'')"

definition alertPoliciesURL :: "string \<Rightarrow> string \<Rightarrow> string" where
  "alertPoliciesURL projectID filterStr =
    gcpMonitoringBaseURL @ ''/projects/'' @ projectID @ ''/alertPolicies'' @
    (if filterStr \<noteq> [] then ''?filter='' @ filterStr else [])"

definition handleListAlerts ::
  "golib \<Rightarrow> world \<Rightarrow> OAuthHandler \<Rightarrow> arguments \<Rightarrow> extcall list \<times> outcome" where
  "handleListAlerts lib w h args =
    (case asString (args ''project_id'') of (projectID, ok) \<Rightarrow>
     if \<not> ok \<or> projectID = [] then ([], toolError ''project_id must be a non-empty string'')
     else
    (case asString (args ''filter'') of (filterStr, _) \<Rightarrow>
    (case GetClient (credentialsError w) h of
       (cs, Some err) \<Rightarrow> (cs, toolError (''Error getting authenticated client: '' @ err))
     | (cs, None) \<Rightarrow>
    (let apiURL = alertPoliciesURL projectID filterStr
     in
    (case httpNewRequestError lib ''GET'' apiURL of
       Some err \<Rightarrow> (cs, toolError (''Error creating request: '' @ err))
     | None \<Rightarrow>
    (let req = \<lparr>Method = ''GET'', URL = apiURL, Body = None, ContentType = None\<rparr>;
         cs1 = cs @ [HttpDo req]
     in
    (case alertPoliciesAPI w of
       TransportError err \<Rightarrow>
         (cs1, toolError (''Error making request to Monitoring API: '' @ err))
     | Response code status body \<Rightarrow>
         if code \<noteq> 200 then (cs1, toolError (''Error from Monitoring API: '' @ status))
         else
        (case body of
           Inl err \<Rightarrow> (cs1, toolError (''Error parsing alert policies response: '' @ err))
         | Inr policies \<Rightarrow>
    (let incidentsURL = gcpMonitoringBaseURL @ ''/projects/'' @ projectID @ ''/incidents''
     in
    (case httpNewRequestError lib ''GET'' incidentsURL of
       Some err \<Rightarrow> (cs1, toolError (''Error creating incidents request: '' @ err))
     | None \<Rightarrow>
    (let incidentsReq = \<lparr>Method = ''GET'', URL = incidentsURL, Body = None,
                         ContentType = None\<rparr>;
         cs2 = cs1 @ [HttpDo incidentsReq]
     in
    (case incidentsAPI w of
       TransportError err \<Rightarrow>
         (cs2, toolError (''Error making request to Monitoring API for incidents: '' @ err))
     | Response icode istatus ibody \<Rightarrow>
         if icode \<noteq> 200
         then (cs2, toolError (''Error from Monitoring API for incidents: '' @ istatus))
         else
        (case ibody of
           Inl err \<Rightarrow> (cs2, toolError (''Error parsing incidents response: '' @ err))
         | Inr incidents \<Rightarrow>
             (cs2, toolText (renderAlerts lib projectID policies incidents)))))))))))))))"

section \<open>Error Reporting tools\<close>

text \<open>
  The body of the loop over the group statistics, for the entry at index \<open>i\<close>.
  \<^verbatim>\<open>stat.Group.Name\<close> dereferences the group pointer: for an entry without a group
  the loop panics, which is the result \<open>None\<close>.
\<close>

definition renderGroupStat :: "golib \<Rightarrow> nat \<Rightarrow> ErrorGroupStats \<Rightarrow> string option" where
  "renderGroupStat lib i stat =
    (case egs_GroupName stat of
       None \<Rightarrow> None
     | Some name \<Rightarrow>
        (let groupIDParts = stringsSplit name (CHR ''/'');
             groupID = last groupIDParts
         in Some
           (showInt (int i + 1) @ ''. Error Group: '' @ groupID @ ''\<newline>'' @
            ''   Count: '' @ showInt (egs_Count stat) @ '' occurrences\<newline>'' @
            (case egs_FirstSeenTime stat of
               Some firstSeen \<Rightarrow>
                 ''   First seen: '' @ timeFormat lib RFC3339 firstSeen @ ''\<newline>''
             | None \<Rightarrow> []) @
            (case egs_LastSeenTime stat of
               Some lastSeen \<Rightarrow>
                 ''   Last seen: '' @ timeFormat lib RFC3339 lastSeen @ ''\<newline>''
             | None \<Rightarrow> []) @
            (if length (egs_AffectedServices stat) > 0
             then ''   Affected services:\<newline>'' @
                  concat (map (\<lambda>svc. ''     - '' @ sc_Service svc @ '' (version: '' @
                                      sc_Version svc @ '')\<newline>'')
                              (egs_AffectedServices stat))
             else []) @
            ''\<newline>'')))"

text \<open>The rendered text, or \<open>None\<close> when the loop panics.\<close>

definition renderActiveIssues ::
  "golib \<Rightarrow> string \<Rightarrow> ErrorGroupStats list \<Rightarrow> string option" where
  "renderActiveIssues lib projectID errorGroupStats =
    (if length errorGroupStats = 0
     then Some ''No active issues found in the specified time range.''
     else
       (case those (map (\<lambda>(i, stat). renderGroupStat lib i stat) (enumerate 0 errorGroupStats)) of
          None \<Rightarrow> None
        | Some blocks \<Rightarrow> Some
           (''Found '' @ showInt (int (length errorGroupStats)) @ '' active issues in project '' @
              projectID @ '':\<newline>\<newline>'' @
            concat blocks @
            ''To get more details about a specific error group, use the get_issue_details tool.'')))"

definition handleListActiveIssues ::
  "golib \<Rightarrow> world \<Rightarrow> OAuthHandler \<Rightarrow> arguments \<Rightarrow> extcall list \<times> outcome" where
  "handleListActiveIssues lib w h args =
    (case asString (args ''project_id'') of (projectID, ok) \<Rightarrow>
     if \<not> ok \<or> projectID = [] then ([], toolError ''project_id must be a non-empty string'')
     else
    (let maxResults =
           (case asFloat64 (args ''max_results'') of (val, ok) \<Rightarrow>
              if ok \<and> val > 0 then floatToInt lib 32 val else 10)
     in
    (case GetClientOptions (credentialsError w) h of
       (cs, Inl err) \<Rightarrow> (cs, toolError (''Error getting client options: '' @ err))
     | (cs, Inr opts) \<Rightarrow>
    (let cs1 = cs @ [NewErrorStatsClient opts]
     in
    (case errorStatsClientError w of
       Some err \<Rightarrow> (cs1, toolError (''Error creating Error Reporting client: '' @ err))
     | None \<Rightarrow>
    (let req = \<lparr>lgs_ProjectName = ''projects/'' @ projectID,
                lgs_TimeRange = PERIOD_1_DAY,
                lgs_PageSize = maxResults,
                lgs_Alignment = ALIGNMENT_EQUAL_ROUNDED\<rparr>;
         cs2 = cs1 @ [ListGroupStats req]
     in
    (case groupStats w of
       (errorGroupStats, Some err) \<Rightarrow>
         (cs2, toolError (''Error iterating through error groups: '' @ err))
     | (errorGroupStats, None) \<Rightarrow>
        (case renderActiveIssues lib projectID errorGroupStats of
           None \<Rightarrow>
             (cs2, Panicked ''runtime error: invalid memory address or nil pointer dereference'')
         | Some result \<Rightarrow> (cs2, toolText result)))))))))"

text \<open>The body of the loop over the events, for the event at index \<open>i\<close>.\<close>

definition renderErrorEvent :: "golib \<Rightarrow> nat \<Rightarrow> ErrorEvent \<Rightarrow> string" where
  "renderErrorEvent lib i event =
    ''#### Event '' @ showInt (int i + 1) @ ''\<newline>'' @
    (case ev_EventTime event of
       Some eventTime \<Rightarrow> ''- Time: '' @ timeFormat lib RFC3339 eventTime @ ''\<newline>''
     | None \<Rightarrow> []) @
    (case ev_ServiceContext event of
       Some sc \<Rightarrow> ''- Service: '' @ sc_Service sc @ '' (version: '' @ sc_Version sc @
                    '')\<newline>''
     | None \<Rightarrow> []) @
    (case ev_Context event of
       Some ctx \<Rightarrow>
         (case ec_ReportLocation ctx of
            Some loc \<Rightarrow> ''- Location: '' @ sl_FilePath loc @ '':'' @ showInt (sl_LineNumber loc) @
                         '' in '' @ sl_FunctionName loc @ ''\<newline>''
          | None \<Rightarrow> [])
     | None \<Rightarrow> []) @
    (case ev_Context event of
       Some ctx \<Rightarrow>
         (case ec_HttpRequest ctx of
            Some r \<Rightarrow>
              ''- Request: '' @ hr_Method r @ '' '' @ hr_Url r @ ''\<newline>'' @
              (if hr_RemoteIp r \<noteq> [] then ''  - IP: '' @ hr_RemoteIp r @ ''\<newline>'' else []) @
              (if hr_UserAgent r \<noteq> [] then ''  - User-Agent: '' @ hr_UserAgent r @ ''\<newline>''
               else []) @
              (if hr_Referrer r \<noteq> [] then ''  - Referrer: '' @ hr_Referrer r @ ''\<newline>''
               else [])
          | None \<Rightarrow> [])
     | None \<Rightarrow> []) @
    (if ev_Message event \<noteq> []
     then ''- Error Message:\<newline>```\<newline>'' @ ev_Message event @ ''\<newline>```\<newline>''
     else []) @
    ''\<newline>''"

definition renderIssueDetails :: "golib \<Rightarrow> string \<Rightarrow> ErrorEvent list \<Rightarrow> string" where
  "renderIssueDetails lib errorGroupID errorEvents =
    ''## Error Group: '' @ errorGroupID @ ''\<newline>\<newline>'' @
    ''### Recent Error Events\<newline>\<newline>'' @
    (if length errorEvents = 0 then ''No recent error events found.\<newline>''
     else concat (map (\<lambda>(i, event). renderErrorEvent lib i event) (enumerate 0 errorEvents))) @
    ''### Potential Causes and Solutions\<newline>\<newline>'' @
    ''1. Check the error messages and stack traces for clues about the root cause.\<newline>'' @
    ''2. Look for patterns in the affected services and versions.\<newline>'' @
    ''3. Check recent deployments or changes to affected services.\<newline>'' @
    ''4. Examine logs around the time of the errors for related issues.\<newline>'' @
    ''5. Consider temporary mitigations like rolling back to a previous version if errors persist.\<newline>''"

definition handleGetIssueDetails ::
  "golib \<Rightarrow> world \<Rightarrow> OAuthHandler \<Rightarrow> arguments \<Rightarrow> extcall list \<times> outcome" where
  "handleGetIssueDetails lib w h args =
    (case asString (args ''project_id'') of (projectID, ok) \<Rightarrow>
     if \<not> ok \<or> projectID = [] then ([], toolError ''project_id must be a non-empty string'')
     else
    (case asString (args ''error_group_id'') of (errorGroupID, ok) \<Rightarrow>
     if \<not> ok \<or> errorGroupID = []
     then ([], toolError ''error_group_id must be a non-empty string'')
     else
    (case GetClientOptions (credentialsError w) h of
       (cs, Inl err) \<Rightarrow> (cs, toolError (''Error getting client options: '' @ err))
     | (cs, Inr opts) \<Rightarrow>
    (let cs1 = cs @ [NewErrorStatsClient opts]
     in
    (case errorStatsClientError w of
       Some err \<Rightarrow> (cs1, toolError (''Error creating Error Reporting client: '' @ err))
     | None \<Rightarrow>
    (let errorsRequest = \<lparr>le_ProjectName = ''projects/'' @ projectID,
                          le_GroupId = errorGroupID,
                          le_PageSize = 10\<rparr>;
         cs2 = cs1 @ [ListEvents errorsRequest]
     in
    (case events w of
       (errorEvents, Some err) \<Rightarrow>
         (cs2, toolError (''Error iterating through error events: '' @ err))
     | (errorEvents, None) \<Rightarrow>
         (cs2, toolText (renderIssueDetails lib errorGroupID errorEvents)))))))))"

section \<open>Logging tools\<close>

definition gcpLoggingBaseURL :: string where
  "gcpLoggingBaseURL = ''https://logging.googleapis.com/v2''"

text \<open>The body of the loop over the log entries, for the entry at index \<open>i\<close>.\<close>

definition renderLogEntry :: "golib \<Rightarrow> runtime \<Rightarrow> nat \<Rightarrow> logEntry \<Rightarrow> string" where
  "renderLogEntry lib rt i entry =
    ''### Log Entry '' @ showInt (int i + 1) @ ''\<newline>'' @
    ''- **Timestamp**: '' @ e_Timestamp entry @ ''\<newline>'' @
    ''- **Severity**: '' @ e_Severity entry @ ''\<newline>'' @
    ''- **Log Name**: '' @ e_LogName entry @ ''\<newline>'' @
    ''- **Resource Type**: '' @ e_ResourceType entry @ ''\<newline>'' @
    (if length (e_ResourceLabels entry) > 0
     then ''- **Resource Labels**:\<newline>'' @
          concat (map (\<lambda>(k, v). ''  - '' @ k @ '': '' @ v @ ''\<newline>'')
                      (rangeMap rt (e_ResourceLabels entry)))
     else []) @
    (if length (e_Labels entry) > 0
     then ''- **Labels**:\<newline>'' @
          concat (map (\<lambda>(k, v). ''  - '' @ k @ '': '' @ v @ ''\<newline>'')
                      (rangeMap rt (e_Labels entry)))
     else []) @
    ''- **Payload**:\<newline>'' @
    (if e_TextPayload entry \<noteq> []
     then ''```\<newline>'' @ e_TextPayload entry @ ''\<newline>```\<newline>''
     else (case e_JsonPayload entry of
             Some payload \<Rightarrow>
               (case jsonMarshalIndent lib (VObject payload) of
                  Inl err \<Rightarrow> ''Error formatting JSON payload\<newline>''
                | Inr jsonBytes \<Rightarrow> ''```json\<newline>'' @ jsonBytes @ ''\<newline>```\<newline>'')
           | None \<Rightarrow> ''No payload\<newline>'')) @
    ''\<newline>''"

definition renderLogs :: "golib \<Rightarrow> runtime \<Rightarrow> logEntriesResponse \<Rightarrow> string" where
  "renderLogs lib rt response =
    (if length (Entries response) = 0 then ''No logs found matching the filter criteria.''
     else ''Found '' @ showInt (int (length (Entries response))) @
            '' log entries matching the filter criteria:\<newline>\<newline>'' @
          concat (map (\<lambda>(i, entry). renderLogEntry lib rt i entry)
                      (enumerate 0 (Entries response))) @
          (if NextPageToken response \<noteq> []
           then ''Note: There are more log entries available. Refine your filter or increase max_results to see more.\<newline>''
           else []))"

text \<open>The request body of the log query, built from the clock and the parameters.\<close>

definition logsRequestBody ::
  "golib \<Rightarrow> runtime \<Rightarrow> string \<Rightarrow> string \<Rightarrow> real \<Rightarrow> real \<Rightarrow> value" where
  \<open>logsRequestBody lib rt projectID filterStr timeRangeHours maxResults =
    (let endTime = now rt;
         startTime = hoursBefore lib endTime timeRangeHours;
         filter1 =
           (if \<not> stringsContains filterStr ''timestamp''
            then filterStr @ '' AND timestamp >= "'' @ timeFormat lib RFC3339 startTime @
                 ''" AND timestamp <= "'' @ timeFormat lib RFC3339 endTime @ ''"''
            else filterStr)
     in VObject
           [(''resourceNames'', VArray [VString (''projects/'' @ projectID)]),
            (''filter'', VString filter1),
            (''orderBy'', VString ''timestamp desc''),
            (''pageSize'', VNumber (of_int (floatToInt lib (intSize lib) maxResults)))])\<close>

definition handleQueryLogs ::
  "golib \<Rightarrow> runtime \<Rightarrow> world \<Rightarrow> OAuthHandler \<Rightarrow> arguments \<Rightarrow> extcall list \<times> outcome" where
  \<open>handleQueryLogs lib rt w h args =
    (case asString (args ''project_id'') of (projectID, ok) \<Rightarrow>
     if \<not> ok \<or> projectID = [] then ([], toolError ''project_id must be a non-empty string'')
     else
    (case asString (args ''filter'') of (filterStr, ok) \<Rightarrow>
     if \<not> ok \<or> filterStr = [] then ([], toolError ''filter must be a non-empty string'')
     else
    (let timeRangeHours = optionalNumber args ''time_range_hours'' 1;
         maxResults = optionalNumber args ''max_results'' 50
     in
    (case GetClient (credentialsError w) h of
       (cs, Some err) \<Rightarrow> (cs, toolError (''Error getting authenticated client: '' @ err))
     | (cs, None) \<Rightarrow>
    (let requestBody = logsRequestBody lib rt projectID filterStr timeRangeHours maxResults
     in
    (case jsonMarshal lib requestBody of
       Inl err \<Rightarrow> (cs, toolError (''Error marshaling request body: '' @ err))
     | Inr requestBodyJSON \<Rightarrow>
    (let apiURL = gcpLoggingBaseURL @ ''/entries:list''
     in
    (case httpNewRequestError lib ''POST'' apiURL of
       Some err \<Rightarrow> (cs, toolError (''Error creating request: '' @ err))
     | None \<Rightarrow>
    (let req = \<lparr>Method = ''POST'', URL = apiURL, Body = Some requestBodyJSON,
                ContentType = Some ''application/json''\<rparr>;
         cs1 = cs @ [HttpDo req]
     in
    (case logEntriesAPI w of
       TransportError err \<Rightarrow>
         (cs1, toolError (''Error making request to Logging API: '' @ err))
     | Response code status body \<Rightarrow>
         if code \<noteq> 200 then (cs1, toolError (''Error from Logging API: '' @ status))
         else
        (case body of
           Inl err \<Rightarrow> (cs1, toolError (''Error parsing response: '' @ err))
         | Inr response \<Rightarrow>
             (cs1, toolText (renderLogs lib rt response)))))))))))))\<close>

text \<open>
  The line of the loop over the pod's log entries; \<open>containerName\<close> is the container
  named in the arguments or, failing that, the one of the first entry.
\<close>

definition renderPodLogLine :: "golib \<Rightarrow> string \<Rightarrow> podLogEntry \<Rightarrow> string" where
  "renderPodLogLine lib containerName entry =
    (let timestamp = (case timeParse lib RFC3339 (pe_Timestamp entry) of
                        Inl err \<Rightarrow> pe_Timestamp entry
                      | Inr t \<Rightarrow> timeFormat lib humanLayout t);
         entryContainer = mapIndex (pe_ResourceLabels entry) ''container_name'';
         logLine =
           (if pe_TextPayload entry \<noteq> [] then pe_TextPayload entry
            else (case pe_JsonPayload entry of
                    Some payload \<Rightarrow>
                      (case map_of payload ''message'' of
                         Some msg \<Rightarrow> sprintV lib msg
                       | None \<Rightarrow>
                          (case jsonMarshal lib (VObject payload) of
                             Inr jsonBytes \<Rightarrow> jsonBytes
                           | Inl err \<Rightarrow> ''[complex json payload]''))
                  | None \<Rightarrow> []))
     in if containerName = []
        then ''['' @ timestamp @ ''] ['' @ entryContainer @ ''] '' @ logLine @ ''\<newline>''
        else ''['' @ timestamp @ ''] '' @ logLine @ ''\<newline>'')"

definition renderPodLogs ::
  "golib \<Rightarrow> string \<Rightarrow> string \<Rightarrow> string \<Rightarrow> real \<Rightarrow> podLogEntriesResponse \<Rightarrow> string" where
  "renderPodLogs lib podName namespace containerName0 timeRangeHours response =
    (case PodEntries response of
       [] \<Rightarrow> ''No logs found for pod '' @ podName @ '' in namespace '' @ namespace @ ''.''
     | first # _ \<Rightarrow>
        (let containerName =
               (if containerName0 = [] then mapIndex (pe_ResourceLabels first) ''container_name''
                else containerName0)
         in ''## Logs for pod '' @ podName @
            (if containerName \<noteq> [] then '', container '' @ containerName else []) @
            '' in namespace '' @ namespace @ ''\<newline>\<newline>'' @
            ''Found '' @ showInt (int (length (PodEntries response))) @
              '' log entries in the last '' @ sprintfFloat lib 1 timeRangeHours @
              '' hours:\<newline>\<newline>'' @
            ''```\<newline>'' @
            concat (map (renderPodLogLine lib containerName) (rev (PodEntries response))) @
            ''```\<newline>\<newline>'' @
            (if PodNextPageToken response \<noteq> []
             then ''Note: There are more log entries available. Increase time_range_hours or max_results to see more.\<newline>''
             else [])))"

text \<open>The request body of the pod's log query, built from the clock and the parameters.\<close>

definition podLogsRequestBody ::
  "golib \<Rightarrow> runtime \<Rightarrow> string \<Rightarrow> string \<Rightarrow> string \<Rightarrow> string \<Rightarrow> string \<Rightarrow> string \<Rightarrow>
   real \<Rightarrow> real \<Rightarrow> value" where
  \<open>podLogsRequestBody lib rt projectID location clusterName namespace podName containerName
      timeRangeHours maxResults =
    (let endTime = now rt;
         startTime = hoursBefore lib endTime timeRangeHours;
         filter0 =
           ''resource.type="k8s_container"'' @ [CHR 0x0A, CHR 0x09, CHR 0x09] @
           ''AND resource.labels.project_id="'' @ projectID @ ''"'' @
             [CHR 0x0A, CHR 0x09, CHR 0x09] @
           ''AND resource.labels.location="'' @ location @ ''"'' @
             [CHR 0x0A, CHR 0x09, CHR 0x09] @
           ''AND resource.labels.cluster_name="'' @ clusterName @ ''"'' @
             [CHR 0x0A, CHR 0x09, CHR 0x09] @
           ''AND resource.labels.namespace_name="'' @ namespace @ ''"'' @
             [CHR 0x0A, CHR 0x09, CHR 0x09] @
           ''AND resource.labels.pod_name="'' @ podName @ ''"'';
         filter1 =
           (if containerName \<noteq> []
            then filter0 @ '' AND resource.labels.container_name="'' @ containerName @ ''"''
            else filter0);
         filter2 = filter1 @ '' AND timestamp >= "'' @ timeFormat lib RFC3339 startTime @
                   ''" AND timestamp <= "'' @ timeFormat lib RFC3339 endTime @ ''"''
     in VObject
           [(''resourceNames'', VArray [VString (''projects/'' @ projectID)]),
            (''filter'', VString filter2),
            (''orderBy'', VString ''timestamp desc''),
            (''pageSize'', VNumber (of_int (floatToInt lib (intSize lib) maxResults)))])\<close>

definition handleGetPodLogs ::
  "golib \<Rightarrow> runtime \<Rightarrow> world \<Rightarrow> OAuthHandler \<Rightarrow> arguments \<Rightarrow> extcall list \<times> outcome" where
  \<open>handleGetPodLogs lib rt w h args =
    (case asString (args ''project_id'') of (projectID, ok) \<Rightarrow>
     if \<not> ok \<or> projectID = [] then ([], toolError ''project_id must be a non-empty string'')
     else
    (case asString (args ''location'') of (location, ok) \<Rightarrow>
     if \<not> ok \<or> location = [] then ([], toolError ''location must be a non-empty string'')
     else
    (case asString (args ''cluster_name'') of (clusterName, ok) \<Rightarrow>
     if \<not> ok \<or> clusterName = []
     then ([], toolError ''cluster_name must be a non-empty string'')
     else
    (case asString (args ''namespace'') of (namespace, ok) \<Rightarrow>
     if \<not> ok \<or> namespace = [] then ([], toolError ''namespace must be a non-empty string'')
     else
    (case asString (args ''pod_name'') of (podName, ok) \<Rightarrow>
     if \<not> ok \<or> podName = [] then ([], toolError ''pod_name must be a non-empty string'')
     else
    (case asString (args ''container_name'') of (containerName, _) \<Rightarrow>
    (let timeRangeHours = optionalNumber args ''time_range_hours'' 1;
         maxResults = optionalNumber args ''max_results'' 100
     in
    (case GetClient (credentialsError w) h of
       (cs, Some err) \<Rightarrow> (cs, toolError (''Error getting authenticated client: '' @ err))
     | (cs, None) \<Rightarrow>
    (let requestBody = podLogsRequestBody lib rt projectID location clusterName namespace
                         podName containerName timeRangeHours maxResults
     in
    (case jsonMarshal lib requestBody of
       Inl err \<Rightarrow> (cs, toolError (''Error marshaling request body: '' @ err))
     | Inr requestBodyJSON \<Rightarrow>
    (let apiURL = gcpLoggingBaseURL @ ''/entries:list''
     in
    (case httpNewRequestError lib ''POST'' apiURL of
       Some err \<Rightarrow> (cs, toolError (''Error creating request: '' @ err))
     | None \<Rightarrow>
    (let req = \<lparr>Method = ''POST'', URL = apiURL, Body = Some requestBodyJSON,
                ContentType = Some ''application/json''\<rparr>;
         cs1 = cs @ [HttpDo req]
     in
    (case podLogEntriesAPI w of
       TransportError err \<Rightarrow>
         (cs1, toolError (''Error making request to Logging API: '' @ err))
     | Response code status body \<Rightarrow>
         if code \<noteq> 200 then (cs1, toolError (''Error from Logging API: '' @ status))
         else
        (case body of
           Inl err \<Rightarrow> (cs1, toolError (''Error parsing response: '' @ err))
         | Inr response \<Rightarrow>
             (cs1, toolText
                (renderPodLogs lib podName namespace containerName timeRangeHours
                   response)))))))))))))))))\<close>

section \<open>Documentation tools\<close>

record searchResult =
  sr_Title :: string
  sr_Link :: string
  sr_Snippet :: string
  sr_DisplayLink :: string

definition gcpSimulatedResults :: "searchResult list" where
  "gcpSimulatedResults =
    [\<lparr>sr_Title = ''Error Reporting | Google Cloud'',
      sr_Link = ''https://cloud.google.com/error-reporting'',
      sr_Snippet = ''Error Reporting counts, analyzes, and aggregates the crashes in your running cloud services.'',
      sr_DisplayLink = ''cloud.google.com''\<rparr>,
     \<lparr>sr_Title = ''Monitoring | Google Cloud'',
      sr_Link = ''https://cloud.google.com/monitoring'',
      sr_Snippet = ''Gain visibility into the performance, availability, and health of your applications and infrastructure.'',
      sr_DisplayLink = ''cloud.google.com''\<rparr>,
     \<lparr>sr_Title = ''Logging | Google Cloud'',
      sr_Link = ''https://cloud.google.com/logging'',
      sr_Snippet = ''Logging allows you to store, search, analyze, monitor, and alert on log data and events from Google Cloud and Amazon Web Services.'',
      sr_DisplayLink = ''cloud.google.com''\<rparr>,
     \<lparr>sr_Title = ''Kubernetes Engine | Google Cloud'',
      sr_Link = ''https://cloud.google.com/kubernetes-engine'',
      sr_Snippet = ''Google Kubernetes Engine (GKE) is a managed, production-ready environment for running containerized applications.'',
      sr_DisplayLink = ''cloud.google.com''\<rparr>,
     \<lparr>sr_Title = ''Troubleshooting GKE | Google Cloud'',
      sr_Link = ''https://cloud.google.com/kubernetes-engine/docs/troubleshooting'',
      sr_Snippet = ''This page provides troubleshooting information for common issues that you might encounter when using Google Kubernetes Engine.'',
      sr_DisplayLink = ''cloud.google.com''\<rparr>]"

definition k8sSimulatedResults :: "searchResult list" where
  "k8sSimulatedResults =
    [\<lparr>sr_Title = ''Troubleshooting Clusters | Kubernetes'',
      sr_Link = ''https://kubernetes.io/docs/tasks/debug/debug-cluster/'',
      sr_Snippet = ''This guide is to help users debug applications that are deployed into Kubernetes and not behaving correctly.'',
      sr_DisplayLink = ''kubernetes.io''\<rparr>,
     \<lparr>sr_Title = ''Troubleshooting Applications | Kubernetes'',
      sr_Link = ''https://kubernetes.io/docs/tasks/debug/debug-application/'',
      sr_Snippet = ''This guide is to help users debug applications that are deployed into Kubernetes and not behaving correctly.'',
      sr_DisplayLink = ''kubernetes.io''\<rparr>,
     \<lparr>sr_Title = ''Debugging Pods | Kubernetes'',
      sr_Link = ''https://kubernetes.io/docs/tasks/debug/debug-application/debug-pods/'',
      sr_Snippet = ''This guide is to help users debug applications that are deployed into Kubernetes and not behaving correctly.'',
      sr_DisplayLink = ''kubernetes.io''\<rparr>,
     \<lparr>sr_Title = ''Debugging Services | Kubernetes'',
      sr_Link = ''https://kubernetes.io/docs/tasks/debug/debug-application/debug-service/'',
      sr_Snippet = ''This guide is to help users debug applications that are deployed into Kubernetes and not behaving correctly.'',
      sr_DisplayLink = ''kubernetes.io''\<rparr>,
     \<lparr>sr_Title = ''Debugging Init Containers | Kubernetes'',
      sr_Link = ''https://kubernetes.io/docs/tasks/debug/debug-application/debug-init-containers/'',
      sr_Snippet = ''This guide is to help users debug applications that are deployed into Kubernetes and not behaving correctly.'',
      sr_DisplayLink = ''kubernetes.io''\<rparr>]"

text \<open>The filter over the simulated results and the body of the loop over the matches.\<close>

definition filterResults :: "golib \<Rightarrow> string \<Rightarrow> searchResult list \<Rightarrow> searchResult list" where
  "filterResults lib query simulatedResults =
    (let queryLower = stringsToLower lib query
     in filter (\<lambda>r. stringsContains (stringsToLower lib (sr_Title r)) queryLower \<or>
                     stringsContains (stringsToLower lib (sr_Snippet r)) queryLower)
               simulatedResults)"

definition renderSearchResult :: "nat \<Rightarrow> searchResult \<Rightarrow> string" where
  "renderSearchResult i r =
    ''## '' @ showInt (int i + 1) @ ''. '' @ sr_Title r @ ''\<newline>'' @
    ''**URL**: ['' @ sr_Link r @ '']('' @ sr_Link r @ '')\<newline>\<newline>'' @
    sr_Snippet r @ ''\<newline>\<newline>''"

definition handleSearchGCPDocs :: "golib \<Rightarrow> arguments \<Rightarrow> extcall list \<times> outcome" where
  \<open>handleSearchGCPDocs lib args =
    (case asString (args ''query'') of (query, ok) \<Rightarrow>
     if \<not> ok \<or> query = [] then ([], toolError ''query must be a non-empty string'')
     else
    (let maxResults = optionalNumber args ''max_results'' 5;
         filteredResults = filterResults lib query gcpSimulatedResults
     in if length filteredResults = 0
        then ([], toolText (''No documentation found for query: '' @ query))
        else ([], toolText
          (''# Google Cloud Documentation Search Results for "'' @ query @
             ''"\<newline>\<newline>'' @
           concat (map (\<lambda>(i, r). renderSearchResult i r)
                       (takeWhile (\<lambda>(i, r). \<not> int i \<ge> floatToInt lib (intSize lib) maxResults)
                                  (enumerate 0 filteredResults))) @
           ''For more results, visit the [Google Cloud documentation](https://cloud.google.com/docs).''))))\<close>

definition handleSearchK8sDocs :: "golib \<Rightarrow> arguments \<Rightarrow> extcall list \<times> outcome" where
  \<open>handleSearchK8sDocs lib args =
    (case asString (args ''query'') of (query, ok) \<Rightarrow>
     if \<not> ok \<or> query = [] then ([], toolError ''query must be a non-empty string'')
     else
    (let maxResults = optionalNumber args ''max_results'' 5;
         filteredResults = filterResults lib query k8sSimulatedResults
     in if length filteredResults = 0
        then ([], toolText (''No documentation found for query: '' @ query))
        else ([], toolText
          (''# Kubernetes Documentation Search Results for "'' @ query @
             ''"\<newline>\<newline>'' @
           concat (map (\<lambda>(i, r). renderSearchResult i r)
                       (takeWhile (\<lambda>(i, r). \<not> int i \<ge> floatToInt lib (intSize lib) maxResults)
                                  (enumerate 0 filteredResults))) @
           ''For more results, visit the [Kubernetes documentation](https://kubernetes.io/docs/).''))))\<close>

record errorDoc =
  ed_Title :: string
  ed_Description :: string
  ed_Solution :: string
  ed_References :: "string list"

definition errorDocs :: "(string \<times> errorDoc) list" where
  "errorDocs =
    [(''RESOURCE_EXHAUSTED'',
      \<lparr>ed_Title = ''Resource Exhausted Error'',
       ed_Description = ''This error occurs when a resource quota has been exceeded. It typically happens when you've reached the limit for a particular resource in your Google Cloud project.'',
       ed_Solution = ''1. Check your current quota usage in the Google Cloud Console.\<newline>2. Request a quota increase if needed.\<newline>3. Optimize your resource usage to stay within limits.'',
       ed_References = [''https://cloud.google.com/docs/quota'',
                        ''https://cloud.google.com/compute/docs/resource-quotas'']\<rparr>),
     (''PERMISSION_DENIED'',
      \<lparr>ed_Title = ''Permission Denied Error'',
       ed_Description = ''This error occurs when the authenticated user does not have sufficient permissions to perform the requested operation.'',
       ed_Solution = ''1. Check the IAM permissions for the user or service account.\<newline>2. Grant the necessary roles or permissions.\<newline>3. Verify that the service account has the required scopes.'',
       ed_References = [''https://cloud.google.com/iam/docs/overview'',
                        ''https://cloud.google.com/iam/docs/troubleshooting-access'']\<rparr>),
     (''NOT_FOUND'',
      \<lparr>ed_Title = ''Resource Not Found Error'',
       ed_Description = ''This error occurs when the requested resource does not exist or is not accessible.'',
       ed_Solution = ''1. Verify that the resource name or ID is correct.\<newline>2. Check if the resource exists in the specified project and region.\<newline>3. Ensure that the resource hasn't been deleted.'',
       ed_References = [''https://cloud.google.com/apis/design/errors'']\<rparr>),
     (''FAILED_PRECONDITION'',
      \<lparr>ed_Title = ''Failed Precondition Error'',
       ed_Description = ''This error occurs when the system is not in a state required for the operation's execution.'',
       ed_Solution = ''1. Check the current state of the resource.\<newline>2. Ensure all prerequisites for the operation are met.\<newline>3. Retry the operation after resolving any conflicts.'',
       ed_References = [''https://cloud.google.com/apis/design/errors'']\<rparr>),
     (''DEADLINE_EXCEEDED'',
      \<lparr>ed_Title = ''Deadline Exceeded Error'',
       ed_Description = ''This error occurs when the operation took longer than the deadline specified by the client or the system.'',
       ed_Solution = ''1. Increase the timeout for the operation if possible.\<newline>2. Break down large operations into smaller ones.\<newline>3. Check for performance issues in your application.'',
       ed_References = [''https://cloud.google.com/apis/design/errors'']\<rparr>)]"

definition renderErrorDoc :: "errorDoc \<Rightarrow> string" where
  "renderErrorDoc errorInfo =
    ''# '' @ ed_Title errorInfo @ ''\<newline>\<newline>'' @
    ''## Description\<newline>\<newline>'' @ ed_Description errorInfo @ ''\<newline>\<newline>'' @
    ''## Solution\<newline>\<newline>'' @ ed_Solution errorInfo @ ''\<newline>\<newline>'' @
    (if length (ed_References errorInfo) > 0
     then ''## References\<newline>\<newline>'' @
          concat (map (\<lambda>ref. ''- ['' @ ref @ '']('' @ ref @ '')\<newline>'')
                      (ed_References errorInfo))
     else [])"

definition handleGetErrorDocs ::
  "golib \<Rightarrow> runtime \<Rightarrow> arguments \<Rightarrow> extcall list \<times> outcome" where
  "handleGetErrorDocs lib rt args =
    (case asString (args ''error_code'') of (errorCode, hasErrorCode) \<Rightarrow>
    (case asString (args ''error_message'') of (errorMessage, hasErrorMessage) \<Rightarrow>
     if \<not> hasErrorCode \<and> \<not> hasErrorMessage
     then ([], toolError ''either error_code or error_message must be provided'')
     else
    (let byCode = (if hasErrorCode then map_of errorDocs errorCode else None);
         found =
           (case byCode of
              Some errorInfo \<Rightarrow> Some errorInfo
            | None \<Rightarrow>
               (if hasErrorMessage
                then (let errorMessageLower = stringsToLower lib errorMessage
                      in map_option snd
                           (find (\<lambda>(code, doc).
                                    stringsContains (stringsToLower lib (ed_Description doc))
                                                    errorMessageLower)
                                 (rangeMap rt errorDocs)))
                else None))
     in (case found of
           None \<Rightarrow>
             ([], toolText
                (''No documentation found for the specified error.'' @
                 (if hasErrorCode then '' Error code: '' @ errorCode else []) @
                 (if hasErrorMessage then '' Error message: '' @ errorMessage else []) @
                 ''\<newline>\<newline>Try searching the Google Cloud documentation or Kubernetes documentation for more information.''))
         | Some errorInfo \<Rightarrow> ([], toolText (renderErrorDoc errorInfo))))))"

section \<open>Dispatch\<close>

text \<open>
  The closure registered for each tool calls the tool's handler with the authentication
  handler it captured.
\<close>

fun dispatch ::
  "golib \<Rightarrow> runtime \<Rightarrow> world \<Rightarrow> OAuthHandler \<Rightarrow> tool \<Rightarrow> arguments \<Rightarrow> extcall list \<times> outcome" where
  "dispatch lib rt w h ListActiveIssues args = handleListActiveIssues lib w h args"
| "dispatch lib rt w h GetIssueDetails args = handleGetIssueDetails lib w h args"
| "dispatch lib rt w h QueryLogs args = handleQueryLogs lib rt w h args"
| "dispatch lib rt w h GetPodLogs args = handleGetPodLogs lib rt w h args"
| "dispatch lib rt w h ListClusters args = handleListClusters lib w h args"
| "dispatch lib rt w h GetClusterInfo args = handleGetClusterInfo lib rt w h args"
| "dispatch lib rt w h ListNodePools args = handleListNodePools lib rt w h args"
| "dispatch lib rt w h QueryMetrics args = handleQueryMetrics lib rt w h args"
| "dispatch lib rt w h ListAlerts args = handleListAlerts lib w h args"
| "dispatch lib rt w h SearchGCPDocs args = handleSearchGCPDocs lib args"
| "dispatch lib rt w h SearchK8sDocs args = handleSearchK8sDocs lib args"
| "dispatch lib rt w h GetErrorDocs args = handleGetErrorDocs lib rt args"

text \<open>
  A call by name against the table that \<^verbatim>\<open>RegisterTools\<close> fills at startup;
  \<open>None\<close> when no tool of that name is registered.
\<close>

definition registry :: toolTable where
  "registry = fst (RegisterTools mcpAddTool Map.empty)"

definition invoke ::
  "golib \<Rightarrow> runtime \<Rightarrow> world \<Rightarrow> OAuthHandler \<Rightarrow> string \<Rightarrow> arguments \<Rightarrow>
   (extcall list \<times> outcome) option" where
  "invoke lib rt w h name args =
    (case registry name of
       None \<Rightarrow> None
     | Some (t, handler) \<Rightarrow> Some (dispatch lib rt w h handler args))"

section \<open>A library instance and stub collaborators for the worked examples\<close>

text \<open>
  \<open>simLib\<close> stands in for the Go library in the worked examples below. The examples
  exercise its URL check, its case folding and its two clock layouts, which follow the Go
  library on the inputs used there: a URL is refused when it holds a control character,
  letters A to Z are folded to lower case, and a time is read in the layout
  \<^verbatim>\<open>2006-01-02T15:04:05Z07:00\<close> and written in that layout or in
  \<^verbatim>\<open>2006-01-02 15:04:05\<close>. The JSON encoders and the number formats are simplified
  (only the quote and the backslash are escaped, no indentation, no exponents); no
  example shows their output.
\<close>

definition isDigit :: "char \<Rightarrow> bool" where
  "isDigit c = (48 \<le> (of_char c :: nat) \<and> (of_char c :: nat) \<le> 57)"

definition digitsVal :: "string \<Rightarrow> int" where
  "digitsVal s = foldl (\<lambda>n c. 10 * n + (int (of_char c) - 48)) 0 s"

definition pad :: "nat \<Rightarrow> int \<Rightarrow> string" where
  "pad n i = replicate (n - length (showInt i)) (CHR ''0'') @ showInt i"

definition daysFromCivil :: "int \<Rightarrow> int \<Rightarrow> int \<Rightarrow> int" where
  "daysFromCivil y m d =
    (let y1 = (if m \<le> 2 then y - 1 else y);
         era = y1 div 400;
         yoe = y1 mod 400;
         doy = (153 * (if m > 2 then m - 3 else m + 9) + 2) div 5 + d - 1;
         doe = yoe * 365 + yoe div 4 - yoe div 100 + doy
     in era * 146097 + doe - 719468)"

definition civilFromDays :: "int \<Rightarrow> int \<times> int \<times> int" where
  "civilFromDays z0 =
    (let z = z0 + 719468;
         era = z div 146097;
         doe = z mod 146097;
         yoe = (doe - doe div 1460 + doe div 36524 - doe div 146096) div 365;
         doy = doe - (365 * yoe + yoe div 4 - yoe div 100);
         mp = (5 * doy + 2) div 153;
         d = doy - (153 * mp + 2) div 5 + 1;
         m = (if mp < 10 then mp + 3 else mp - 9);
         y = yoe + era * 400 + (if m \<le> 2 then 1 else 0)
     in (y, m, d))"

definition daysIn :: "int \<Rightarrow> int \<Rightarrow> int" where
  "daysIn y m =
    (if m = 2 then (if y mod 4 = 0 \<and> (y mod 100 \<noteq> 0 \<or> y mod 400 = 0) then 29 else 28)
     else if m = 4 \<or> m = 6 \<or> m = 9 \<or> m = 11 then 30 else 31)"

text \<open>The zone of an RFC3339 time: \<open>Z\<close> or a signed offset \<open>hh:mm\<close>, in seconds.\<close>

definition simParseZone :: "string \<Rightarrow> int option" where
  "simParseZone z =
    (if z = ''Z'' then Some 0
     else if length z = 6 \<and> (z ! 0 = CHR ''+'' \<or> z ! 0 = CHR ''-'') \<and> isDigit (z ! 1) \<and>
             isDigit (z ! 2) \<and> z ! 3 = CHR '':'' \<and> isDigit (z ! 4) \<and> isDigit (z ! 5) \<and>
             digitsVal (take 2 (drop 1 z)) < 24 \<and> digitsVal (drop 4 z) < 60
     then Some ((if z ! 0 = CHR ''-'' then - 1 else 1) *
                (digitsVal (take 2 (drop 1 z)) * 3600 + digitsVal (drop 4 z) * 60))
     else None)"

text \<open>
  Reading a time in the layout RFC3339: date, \<open>T\<close>, clock, an optional fraction of a
  second (dropped: no layout used here shows it) and the zone.
\<close>

definition simParseRFC3339 :: "string \<Rightarrow> string + gotime" where
  "simParseRFC3339 s =
    (let core = take 19 s;
         rest = drop 19 s;
         rest1 = (case rest of
                    c # ds \<Rightarrow> if c = CHR ''.'' \<and> ds \<noteq> [] \<and> isDigit (hd ds)
                              then dropWhile isDigit ds else rest
                  | [] \<Rightarrow> rest);
         y = digitsVal (take 4 core);
         mo = digitsVal (take 2 (drop 5 core));
         d = digitsVal (take 2 (drop 8 core));
         hh = digitsVal (take 2 (drop 11 core));
         mi = digitsVal (take 2 (drop 14 core));
         ss = digitsVal (take 2 (drop 17 core))
     in (case simParseZone rest1 of
           None \<Rightarrow> Inl (''parsing time '' @ s)
         | Some off \<Rightarrow>
            if length core = 19 \<and>
               list_all (\<lambda>i. isDigit (core ! i)) [0, 1, 2, 3, 5, 6, 8, 9, 11, 12, 14, 15, 17, 18] \<and>
               core ! 4 = CHR ''-'' \<and> core ! 7 = CHR ''-'' \<and> core ! 10 = CHR ''T'' \<and>
               core ! 13 = CHR '':'' \<and> core ! 16 = CHR '':'' \<and>
               1 \<le> mo \<and> mo \<le> 12 \<and> 1 \<le> d \<and> d \<le> daysIn y mo \<and> hh < 24 \<and> mi < 60 \<and> ss < 60
            then Inr \<lparr>unixNano =
                        (daysFromCivil y mo d * 86400 + hh * 3600 + mi * 60 + ss - off) *
                        1000000000,
                      zoneOffset = off\<rparr>
            else Inl (''parsing time '' @ s)))"

definition simTimeParse :: "string \<Rightarrow> string \<Rightarrow> string + gotime" where
  "simTimeParse layout s =
    (if layout = RFC3339 then simParseRFC3339 s else Inl (''unknown layout '' @ layout))"

definition simTimeFormat :: "string \<Rightarrow> gotime \<Rightarrow> string" where
  "simTimeFormat layout t =
    (let secs = unixNano t div 1000000000 + zoneOffset t;
         sod = secs mod 86400;
         ymd = civilFromDays (secs div 86400);
         date = pad 4 (fst ymd) @ ''-'' @ pad 2 (fst (snd ymd)) @ ''-'' @ pad 2 (snd (snd ymd));
         clock = pad 2 (sod div 3600) @ '':'' @ pad 2 (sod mod 3600 div 60) @ '':'' @
                 pad 2 (sod mod 60);
         off = \<bar>zoneOffset t\<bar>;
         zone = (if zoneOffset t = 0 then ''Z''
                 else (if zoneOffset t < 0 then ''-'' else ''+'') @ pad 2 (off div 3600) @ '':'' @
                      pad 2 (off mod 3600 div 60))
     in if layout = humanLayout then date @ '' '' @ clock
        else if layout = RFC3339 then date @ ''T'' @ clock @ zone
        else [])"

definition simToLower :: "string \<Rightarrow> string" where
  "simToLower s =
    map (\<lambda>c. if 65 \<le> (of_char c :: nat) \<and> (of_char c :: nat) \<le> 90
              then char_of ((of_char c :: nat) + 32) else c) s"

definition simSprintfFloat :: "nat \<Rightarrow> real \<Rightarrow> string" where
  "simSprintfFloat p x =
    (let scaled = \<bar>x\<bar> * 10 ^ p;
         n = \<lfloor>scaled\<rfloor>;
         r = (if scaled - of_int n > 1 / 2 \<or> (scaled - of_int n = 1 / 2 \<and> odd n) then n + 1
              else n)
     in (if x < 0 then ''-'' else []) @ showInt (r div 10 ^ p) @
        (if p = 0 then [] else ''.'' @ pad p (r mod 10 ^ p)))"

fun joinWith :: "string \<Rightarrow> string list \<Rightarrow> string" where
  "joinWith sep [] = []"
| "joinWith sep [x] = x"
| "joinWith sep (x # y # ys) = x @ sep @ joinWith sep (y # ys)"

fun simJsonText :: "value \<Rightarrow> string" where
  "simJsonText VNull = ''null''"
| "simJsonText (VBool b) = showBool b"
| "simJsonText (VNumber x) =
    (if x = of_int \<lfloor>x\<rfloor> then showInt \<lfloor>x\<rfloor> else simSprintfFloat 6 x)"
| "simJsonText (VString s) =
    [CHR 0x22] @
    concat (map (\<lambda>c. if c = CHR 0x22 \<or> c = CHR 0x5C then [CHR 0x5C, c] else [c]) s) @
    [CHR 0x22]"
| "simJsonText (VArray vs) = ''['' @ joinWith '','' (map simJsonText vs) @ '']''"
| "simJsonText (VObject kvs) =
    ''{'' @ joinWith '','' (map (\<lambda>(k, v). [CHR 0x22] @ k @ [CHR 0x22] @ '':'' @ simJsonText v) kvs) @
    ''}''"

definition simSprintV :: "value \<Rightarrow> string" where
  "simSprintV v = (case v of VString s \<Rightarrow> s | VNull \<Rightarrow> ''<nil>'' | _ \<Rightarrow> simJsonText v)"

definition simNewRequestError :: "string \<Rightarrow> string \<Rightarrow> string option" where
  "simNewRequestError m u =
    (if list_ex (\<lambda>c. (of_char c :: nat) < 32 \<or> (of_char c :: nat) = 127) u
     then Some (''parse '' @ [CHR 0x22] @ u @ [CHR 0x22] @
                '': net/url: invalid control character in URL'')
     else None)"

definition simLib :: golib where
  "simLib =
    \<lparr>httpNewRequestError = simNewRequestError,
     jsonMarshal = (\<lambda>v. Inr (simJsonText v)),
     jsonMarshalIndent = (\<lambda>v. Inr (simJsonText v)),
     sprintfFloat = simSprintfFloat,
     sprintV = simSprintV,
     stringsToLower = simToLower,
     timeFormat = simTimeFormat,
     timeParse = simTimeParse,
     intSize = 64,
     floatToIntOverflow = (\<lambda>bits x. - (2 ^ (bits - 1)))\<rparr>"

text \<open>
  The process of the examples: started with a service-account file, at a fixed clock
  reading, with maps visited in the order of their entries.
\<close>

definition exampleEnv :: "string \<Rightarrow> string" where
  "exampleEnv name =
    (if name = ''GOOGLE_APPLICATION_CREDENTIALS'' then ''/etc/gcp/key.json'' else [])"

definition exampleHandler :: OAuthHandler where
  "exampleHandler =
    \<lparr>clientID = [], clientSecret = [], currentScopes = ReadOnlyScopes,
     credentialsFile = ''/etc/gcp/key.json''\<rparr>"

definition exampleRuntime :: runtime where
  "exampleRuntime =
    \<lparr>now = \<lparr>unixNano = 1704164645000000000, zoneOffset = 0\<rparr>, mapOrder = (\<lambda>n. [0..<n])\<rparr>"

text \<open>The same process when the runtime visits maps from the last entry to the first.\<close>

definition reversedRuntime :: runtime where
  "reversedRuntime = exampleRuntime\<lparr>mapOrder := (\<lambda>n. rev [0..<n])\<rparr>"

text \<open>
  A stub world in which every collaborator succeeds and every query finds nothing: each
  endpoint answers 200 with a body that decodes to an empty payload.
\<close>

definition emptyClusterInfo :: clusterInfo where
  "emptyClusterInfo =
    \<lparr>c_Name = [], c_Description = [], c_Location = [], c_Status = [], c_NodeCount = 0,
     c_MasterVersion = [], c_NodeVersion = [], c_Network = [], c_Subnetwork = [],
     c_ClusterIpv4Cidr = [], c_ServicesIpv4Cidr = [], c_Endpoint = [], c_CreateTime = [],
     ci_MaintenanceStartTime = [], ci_MaintenanceDuration = [],
     ci_NetworkConfigNetwork = [], ci_NetworkConfigSubnetwork = [],
     ci_HttpLoadBalancingDisabled = False, ci_HorizontalPodAutoscalingDisabled = False,
     ci_KubernetesDashboardDisabled = False, ci_NetworkPolicyConfigDisabled = False,
     ci_Locations = [], ci_ResourceLabels = []\<rparr>"

definition emptyWorld :: world where
  "emptyWorld =
    \<lparr>credentialsError = None,
     clustersAPI = Response 200 ''200 OK'' (Inr []),
     clusterAPI = Response 200 ''200 OK'' (Inr emptyClusterInfo),
     nodePoolsAPI = Response 200 ''200 OK'' (Inr []),
     timeSeriesAPI = Response 200 ''200 OK''
       (Inr \<lparr>TimeSeriesData = [], LabelDescriptors = [], PointDescriptors = []\<rparr>),
     alertPoliciesAPI = Response 200 ''200 OK'' (Inr []),
     incidentsAPI = Response 200 ''200 OK'' (Inr []),
     logEntriesAPI = Response 200 ''200 OK'' (Inr \<lparr>Entries = [], NextPageToken = []\<rparr>),
     podLogEntriesAPI = Response 200 ''200 OK''
       (Inr \<lparr>PodEntries = [], PodNextPageToken = []\<rparr>),
     errorStatsClientError = None,
     groupStats = ([], None),
     events = ([], None)\<rparr>"

text \<open>The stub world in which the cluster endpoint answers 404.\<close>

definition notFoundWorld :: world where
  "notFoundWorld =
    emptyWorld\<lparr>clusterAPI := Response 404 ''404 Not Found'' (Inl ''unexpected end of JSON input'')\<rparr>"

text \<open>A cluster with two resource labels, and the stub worlds that return it.\<close>

definition labelledCluster :: clusterInfo where
  "labelledCluster =
    emptyClusterInfo\<lparr>c_Name := ''c1'', c_Location := ''us-central1'', c_Status := ''RUNNING'',
      c_NodeCount := 3, c_CreateTime := ''2024-01-02T03:04:05Z'',
      ci_ResourceLabels := [(''env'', ''prod''), (''team'', ''sre'')]\<rparr>"

definition labelledWorld :: world where
  "labelledWorld = emptyWorld\<lparr>clusterAPI := Response 200 ''200 OK'' (Inr labelledCluster)\<rparr>"

definition oneClusterWorld :: world where
  "oneClusterWorld =
    emptyWorld\<lparr>clustersAPI := Response 200 ''200 OK''
      (Inr [cluster.truncate labelledCluster])\<rparr>"

section \<open>Notions used in the statements\<close>

text \<open>
  A round trip fails when the transport fails, when the status is not 200 (the test the
  handlers make; every status outside 2xx is such a status) or when the body does not
  decode.
\<close>

definition httpFails :: "'p httpOutcome \<Rightarrow> bool" where
  "httpFails r =
    (case r of
       TransportError err \<Rightarrow> True
     | Response code status body \<Rightarrow> code \<noteq> 200 \<or> isl body)"

text \<open>A collaborator that the tool relies on fails during the call.\<close>

fun collaboratorFails :: "world \<Rightarrow> OAuthHandler \<Rightarrow> tool \<Rightarrow> bool" where
  "collaboratorFails w h ListActiveIssues =
    (isl (snd (GetClientOptions (credentialsError w) h)) \<or> errorStatsClientError w \<noteq> None \<or>
     snd (groupStats w) \<noteq> None)"
| "collaboratorFails w h GetIssueDetails =
    (isl (snd (GetClientOptions (credentialsError w) h)) \<or> errorStatsClientError w \<noteq> None \<or>
     snd (events w) \<noteq> None)"
| "collaboratorFails w h QueryLogs =
    (snd (GetClient (credentialsError w) h) \<noteq> None \<or> httpFails (logEntriesAPI w))"
| "collaboratorFails w h GetPodLogs =
    (snd (GetClient (credentialsError w) h) \<noteq> None \<or> httpFails (podLogEntriesAPI w))"
| "collaboratorFails w h ListClusters =
    (snd (GetClient (credentialsError w) h) \<noteq> None \<or> httpFails (clustersAPI w))"
| "collaboratorFails w h GetClusterInfo =
    (snd (GetClient (credentialsError w) h) \<noteq> None \<or> httpFails (clusterAPI w))"
| "collaboratorFails w h ListNodePools =
    (snd (GetClient (credentialsError w) h) \<noteq> None \<or> httpFails (nodePoolsAPI w))"
| "collaboratorFails w h QueryMetrics =
    (snd (GetClient (credentialsError w) h) \<noteq> None \<or> httpFails (timeSeriesAPI w))"
| "collaboratorFails w h ListAlerts =
    (snd (GetClient (credentialsError w) h) \<noteq> None \<or> httpFails (alertPoliciesAPI w) \<or>
     httpFails (incidentsAPI w))"
| "collaboratorFails w h SearchGCPDocs = False"
| "collaboratorFails w h SearchK8sDocs = False"
| "collaboratorFails w h GetErrorDocs = False"

text \<open>
  The status line of a response whose status is not 200, and the first round trip of the
  tool that is answered with such a status, with its number.
\<close>

definition badStatus :: "'p httpOutcome \<Rightarrow> string option" where
  "badStatus r =
    (case r of
       TransportError err \<Rightarrow> None
     | Response code status body \<Rightarrow> if code \<noteq> 200 then Some status else None)"

fun remoteStatus :: "world \<Rightarrow> tool \<Rightarrow> (nat \<times> string) option" where
  "remoteStatus w QueryLogs = map_option (Pair 1) (badStatus (logEntriesAPI w))"
| "remoteStatus w GetPodLogs = map_option (Pair 1) (badStatus (podLogEntriesAPI w))"
| "remoteStatus w ListClusters = map_option (Pair 1) (badStatus (clustersAPI w))"
| "remoteStatus w GetClusterInfo = map_option (Pair 1) (badStatus (clusterAPI w))"
| "remoteStatus w ListNodePools = map_option (Pair 1) (badStatus (nodePoolsAPI w))"
| "remoteStatus w QueryMetrics = map_option (Pair 1) (badStatus (timeSeriesAPI w))"
| "remoteStatus w ListAlerts =
    (case badStatus (alertPoliciesAPI w) of
       Some status \<Rightarrow> Some (1, status)
     | None \<Rightarrow> if httpFails (alertPoliciesAPI w) then None
               else map_option (Pair 2) (badStatus (incidentsAPI w)))"
| "remoteStatus w ListActiveIssues = None"
| "remoteStatus w GetIssueDetails = None"
| "remoteStatus w SearchGCPDocs = None"
| "remoteStatus w SearchK8sDocs = None"
| "remoteStatus w GetErrorDocs = None"

definition roundTrips :: "extcall list \<Rightarrow> nat" where
  "roundTrips cs = length (filter (\<lambda>c. case c of HttpDo req \<Rightarrow> True | _ \<Rightarrow> False) cs)"

text \<open>
  A required string parameter is violated by the arguments when its key is absent, bound
  to a value that is not a string, or bound to the empty string. \<open>firstViolation\<close> is
  the name of the first violated parameter in the order of the definition.
\<close>

definition missing :: "arguments \<Rightarrow> string \<Rightarrow> bool" where
  "missing args k = (case asString (args k) of (s, ok) \<Rightarrow> \<not> ok \<or> s = [])"

definition violates :: "arguments \<Rightarrow> paramSpec \<Rightarrow> bool" where
  "violates args p = (required p \<and> kind p = KString \<and> missing args (pname p))"

definition firstViolation :: "paramSpec list \<Rightarrow> arguments \<Rightarrow> string option" where
  "firstViolation ps args = map_option pname (find (violates args) ps)"

text \<open>The string bound to a key, empty when there is none.\<close>

definition argString :: "arguments \<Rightarrow> string \<Rightarrow> string" where
  "argString args k = fst (asString (args k))"

text \<open>
  The tool's query is answered with status 200 and a body that decodes to no records
  (for the Error Reporting statistics: the iterator ends at once).
\<close>

fun emptyResult :: "world \<Rightarrow> tool \<Rightarrow> bool" where
  "emptyResult w ListActiveIssues = (groupStats w = ([], None))"
| "emptyResult w QueryLogs =
    (case logEntriesAPI w of
       Response code status (Inr response) \<Rightarrow> code = 200 \<and> Entries response = []
     | _ \<Rightarrow> False)"
| "emptyResult w GetPodLogs =
    (case podLogEntriesAPI w of
       Response code status (Inr response) \<Rightarrow> code = 200 \<and> PodEntries response = []
     | _ \<Rightarrow> False)"
| "emptyResult w ListClusters =
    (case clustersAPI w of
       Response code status (Inr clusters) \<Rightarrow> code = 200 \<and> clusters = []
     | _ \<Rightarrow> False)"
| "emptyResult w ListNodePools =
    (case nodePoolsAPI w of
       Response code status (Inr nodePools) \<Rightarrow> code = 200 \<and> nodePools = []
     | _ \<Rightarrow> False)"
| "emptyResult w QueryMetrics =
    (case timeSeriesAPI w of
       Response code status (Inr response) \<Rightarrow> code = 200 \<and> TimeSeriesData response = []
     | _ \<Rightarrow> False)"
| "emptyResult w ListAlerts =
    (case incidentsAPI w of
       Response code status (Inr incidents) \<Rightarrow> code = 200 \<and> incidents = []
     | _ \<Rightarrow> False)"
| "emptyResult w GetIssueDetails = False"
| "emptyResult w GetClusterInfo = False"
| "emptyResult w SearchGCPDocs = False"
| "emptyResult w SearchK8sDocs = False"
| "emptyResult w GetErrorDocs = False"

fun noneFoundSentence :: "tool \<Rightarrow> arguments \<Rightarrow> string" where
  "noneFoundSentence ListActiveIssues args =
    ''No active issues found in the specified time range.''"
| "noneFoundSentence QueryLogs args = ''No logs found matching the filter criteria.''"
| "noneFoundSentence GetPodLogs args =
    ''No logs found for pod '' @ argString args ''pod_name'' @ '' in namespace '' @
    argString args ''namespace'' @ ''.''"
| "noneFoundSentence ListClusters args =
    ''No GKE clusters found in project '' @ argString args ''project_id'' @
    (if argString args ''location'' \<noteq> [] then '' in location '' @ argString args ''location''
     else []) @ ''.''"
| "noneFoundSentence ListNodePools args =
    ''No node pools found in cluster '' @ argString args ''cluster_name'' @ '' in location '' @
    argString args ''location'' @ ''.''"
| "noneFoundSentence QueryMetrics args =
    ''No metrics data found for metric type '' @ argString args ''metric_type'' @
    '' in the specified time range.''"
| "noneFoundSentence ListAlerts args = ''No active alerts found.''"
| "noneFoundSentence GetIssueDetails args = []"
| "noneFoundSentence GetClusterInfo args = []"
| "noneFoundSentence SearchGCPDocs args = []"
| "noneFoundSentence SearchK8sDocs args = []"
| "noneFoundSentence GetErrorDocs args = []"

text \<open>Every map of labels in the payloads of the world has at most one entry.\<close>

definition labelsAtMostOne :: "world \<Rightarrow> bool" where
  "labelsAtMostOne w =
    ((case clusterAPI w of
        Response code status (Inr c) \<Rightarrow> length (ci_ResourceLabels c) \<le> 1
      | _ \<Rightarrow> True) \<and>
     (case nodePoolsAPI w of
        Response code status (Inr nodePools) \<Rightarrow>
          list_all (\<lambda>pool. length (np_Labels pool) \<le> 1) nodePools
      | _ \<Rightarrow> True) \<and>
     (case logEntriesAPI w of
        Response code status (Inr response) \<Rightarrow>
          list_all (\<lambda>entry. length (e_ResourceLabels entry) \<le> 1 \<and> length (e_Labels entry) \<le> 1)
                   (Entries response)
      | _ \<Rightarrow> True))"

text \<open>
  \<^verbatim>\<open>json.Marshal\<close> reports an error only for values JSON cannot express (channels,
  functions, cycles, infinities), none of which is a \<open>value\<close>.
\<close>

definition marshalNeverFails :: "golib \<Rightarrow> bool" where
  "marshalNeverFails lib \<longleftrightarrow> (\<forall>v. \<not> isl (jsonMarshal lib v))"

text \<open>
  The default that the description of each optional numeric parameter declares. It is
  the value the handler starts from, except for \<^verbatim>\<open>time_range_hours\<close> of
  \<^verbatim>\<open>list_active_issues\<close>, which the handler does not read.
\<close>

fun declaredDefault :: "tool \<Rightarrow> string \<Rightarrow> real option" where
  "declaredDefault ListActiveIssues k =
    (if k = ''time_range_hours'' then Some 24 else if k = ''max_results'' then Some 10 else None)"
| "declaredDefault QueryLogs k =
    (if k = ''time_range_hours'' then Some 1 else if k = ''max_results'' then Some 50 else None)"
| "declaredDefault GetPodLogs k =
    (if k = ''time_range_hours'' then Some 1 else if k = ''max_results'' then Some 100 else None)"
| "declaredDefault QueryMetrics k =
    (if k = ''time_range_hours'' then Some 1
     else if k = ''alignment_period_seconds'' then Some 300 else None)"
| "declaredDefault SearchGCPDocs k = (if k = ''max_results'' then Some 5 else None)"
| "declaredDefault SearchK8sDocs k = (if k = ''max_results'' then Some 5 else None)"
| "declaredDefault GetIssueDetails k = None"
| "declaredDefault ListClusters k = None"
| "declaredDefault GetClusterInfo k = None"
| "declaredDefault ListNodePools k = None"
| "declaredDefault ListAlerts k = None"
| "declaredDefault GetErrorDocs k = None"

text \<open>A value that the handlers do not accept for a numeric parameter.\<close>

definition notPositiveNumber :: "value \<Rightarrow> bool" where
  "notPositiveNumber v = (case v of VNumber x \<Rightarrow> x \<le> 0 | _ \<Rightarrow> True)"

section \<open>Theorems\<close>

subsection \<open>Scopes of the authentication handler\<close>

lemma UpgradePermissions_readonly:
  "currentScopes h = ReadOnlyScopes \<Longrightarrow> UpgradePermissions h = (h, None)"
  by (simp add: UpgradePermissions_def ReadOnlyScopes_def ReadWriteScopes_def)

lemma authStep_readonly:
  "currentScopes h = ReadOnlyScopes \<Longrightarrow> authStep creds h c = h"
  by (cases c) (simp_all add: UpgradePermissions_readonly)

lemma foldl_authStep_readonly:
  "currentScopes h = ReadOnlyScopes \<Longrightarrow> foldl (authStep creds) h cs = h"
  by (induction cs arbitrary: h) (simp_all add: authStep_readonly)

lemma NewOAuthHandler_scopes:
  "NewOAuthHandler getenv = Inr h \<Longrightarrow> currentScopes h = ReadOnlyScopes"
  by (auto simp: NewOAuthHandler_def Let_def split: if_splits)

text \<open>
  Claim C8. \<^verbatim>\<open>UpgradePermissions\<close> never changes the scopes of a handler made by
  \<^verbatim>\<open>NewOAuthHandler\<close>: both scope lists have five entries, so the length test returns
  early. After any sequence of calls of the handler's methods the handler is the one
  \<^verbatim>\<open>NewOAuthHandler\<close> returned, its scopes are the read-only scopes, and a further
  \<^verbatim>\<open>UpgradePermissions\<close> returns it unchanged with a nil error.
\<close>

theorem upgrade_permissions_keeps_read_only_scopes:
  assumes "NewOAuthHandler getenv = Inr h"
  shows "foldl (authStep creds) h calls = h
         \<and> currentScopes (foldl (authStep creds) h calls) = ReadOnlyScopes
         \<and> UpgradePermissions (foldl (authStep creds) h calls) =
             (foldl (authStep creds) h calls, None)
         \<and> length ReadOnlyScopes = 5 \<and> length ReadWriteScopes = 5
         \<and> ReadOnlyScopes \<noteq> ReadWriteScopes"
proof -
  have ro: "currentScopes h = ReadOnlyScopes"
    using assms by (rule NewOAuthHandler_scopes)
  have same: "foldl (authStep creds) h calls = h"
    using ro by (rule foldl_authStep_readonly)
  have lens: "length ReadOnlyScopes = 5 \<and> length ReadWriteScopes = 5
              \<and> ReadOnlyScopes \<noteq> ReadWriteScopes"
    by (simp add: ReadOnlyScopes_def ReadWriteScopes_def)
  show ?thesis
    using ro same lens by (simp add: UpgradePermissions_readonly)
qed

theorem upgrade_permissions_keeps_read_only_scopes_witness:
  "NewOAuthHandler exampleEnv = Inr exampleHandler \<and>
   currentScopes
     (foldl (authStep None) exampleHandler
        [CallUpgradePermissions, CallGetClient, CallUpgradePermissions]) = ReadOnlyScopes"
proof -
  have h: "NewOAuthHandler exampleEnv = Inr exampleHandler"
    by (simp add: NewOAuthHandler_def exampleEnv_def exampleHandler_def)
  from upgrade_permissions_keeps_read_only_scopes
      [OF h, of None "[CallUpgradePermissions, CallGetClient, CallUpgradePermissions]"]
  have "currentScopes
          (foldl (authStep None) exampleHandler
             [CallUpgradePermissions, CallGetClient, CallUpgradePermissions]) = ReadOnlyScopes"
    by blast
  with h show ?thesis by blast
qed

subsection \<open>Registration\<close>









end
